theory Spec2Isabelle
  imports Main "HOL-Library.Word" "HOL-Library.Sublist"
begin

unbundle bit_operations_syntax

section \<open>Shared kernel state\<close>

text \<open>
  The kernel sources under study are \<^verbatim>\<open>kernel/fs/vfs.c\<close>, \<^verbatim>\<open>kernel/fs/ext2_super.c\<close> and
  \<^verbatim>\<open>kernel/fs/ext2_write.c\<close>. A C function that may dereference a NULL pointer, index an
  array out of bounds, divide by zero or shift out of range has the outcome \<open>Fault\<close> on that
  path; every other path returns with \<open>Ret\<close>.
\<close>

datatype 'a outcome = Fault | Ret 'a

text \<open>
  Modelled from the spec: the HAL UART functions \<^verbatim>\<open>hal_uart_puts\<close>, \<^verbatim>\<open>hal_uart_put_uint32\<close> and
  \<^verbatim>\<open>hal_uart_put_hex\<close> (their header and driver are not part of the sources) are a console
  sink and do nothing else. The console is the sequence of calls made to them, oldest first.
\<close>

datatype uart_event = Puts string | Put_uint32 "32 word" | Put_hex "32 word"

type_synonym node_ref = nat
type_synonym ops_ref = nat
type_synonym fs_ref = nat

text \<open>
  \<^verbatim>\<open>vfs_node_t\<close>: the fields that \<^verbatim>\<open>vfs.c\<close> reads and writes. \<open>n_ops = None\<close> is a NULL
  \<^verbatim>\<open>ops\<close> pointer.
\<close>

record vfs_node =
  n_type :: "32 word"
  n_size :: "32 word"
  n_ops :: "ops_ref option"

text \<open>\<^verbatim>\<open>vfs_filesystem_t\<close>: \<open>fs_root = None\<close> is a NULL \<^verbatim>\<open>root\<close> pointer.\<close>

record vfs_filesystem =
  fs_name :: string
  fs_root :: "node_ref option"

text \<open>
  Everything outside the statics of \<^verbatim>\<open>vfs.c\<close>: the process-wide \<^verbatim>\<open>errno\<close> slot, the console,
  the nodes and filesystem structs reached through pointers, and the state \<open>w_ext\<close> owned by
  the external collaborators (filesystem driver, block device, kernel heap).
\<close>

record 'x world =
  errno :: int
  console :: "uart_event list"
  w_nodes :: "node_ref \<Rightarrow> vfs_node"
  w_filesystems :: "fs_ref \<Rightarrow> vfs_filesystem"
  w_ext :: 'x

definition hal_uart_puts :: "string \<Rightarrow> 'x world \<Rightarrow> 'x world" where
  "hal_uart_puts s w = w\<lparr>console := console w @ [Puts s]\<rparr>"

definition hal_uart_put_uint32 :: "32 word \<Rightarrow> 'x world \<Rightarrow> 'x world" where
  "hal_uart_put_uint32 n w = w\<lparr>console := console w @ [Put_uint32 n]\<rparr>"

definition hal_uart_put_hex :: "32 word \<Rightarrow> 'x world \<Rightarrow> 'x world" where
  "hal_uart_put_hex n w = w\<lparr>console := console w @ [Put_hex n]\<rparr>"

section \<open>ext2 write operations (\<^verbatim>\<open>ext2_write.c\<close>)\<close>

text \<open>
  A pointer into the kernel heap is the address of the block together with the bytes the
  block holds; blocks handed out by \<^verbatim>\<open>kmalloc\<close> overlap nothing else.
\<close>

record kbuf =
  kb_addr :: nat
  kb_bytes :: "8 word list"

text \<open>\<^verbatim>\<open>ext2_fs_t\<close>. \<open>None\<close> is a NULL pointer.\<close>

record ext2_fs =
  device :: "nat option"
  superblock :: "kbuf option"
  group_desc :: "kbuf option"
  block_size :: "32 word"
  num_groups :: "32 word"
  inodes_per_block :: "32 word"
  desc_per_block :: "32 word"

text \<open>
  The five stubs cast every argument to void, print one line and return -1. The inode
  type \<open>'i\<close> is opaque here.
\<close>

definition ext2_write_file ::
  "ext2_fs option \<Rightarrow> 'i option \<Rightarrow> 32 word \<Rightarrow> 8 word list option \<Rightarrow> 32 word \<Rightarrow>
   'x world \<Rightarrow> int \<times> 'x world" where
  "ext2_write_file fs inode offset buffer sz w =
     (-1, hal_uart_puts ''ext2: write_file not yet implemented\<newline>'' w)"

definition ext2_create_file ::
  "ext2_fs option \<Rightarrow> 'i option \<Rightarrow> string option \<Rightarrow> 32 word \<Rightarrow> 'x world \<Rightarrow> int \<times> 'x world" where
  "ext2_create_file fs dir_inode name mode w =
     (-1, hal_uart_puts ''ext2: create_file not yet implemented\<newline>'' w)"

definition ext2_create_dir ::
  "ext2_fs option \<Rightarrow> 'i option \<Rightarrow> string option \<Rightarrow> 32 word \<Rightarrow> 'x world \<Rightarrow> int \<times> 'x world" where
  "ext2_create_dir fs dir_inode name mode w =
     (-1, hal_uart_puts ''ext2: create_dir not yet implemented\<newline>'' w)"

definition ext2_remove_file ::
  "ext2_fs option \<Rightarrow> 'i option \<Rightarrow> string option \<Rightarrow> 'x world \<Rightarrow> int \<times> 'x world" where
  "ext2_remove_file fs dir_inode name w =
     (-1, hal_uart_puts ''ext2: remove_file not yet implemented\<newline>'' w)"

definition ext2_remove_dir ::
  "ext2_fs option \<Rightarrow> 'i option \<Rightarrow> string option \<Rightarrow> 'x world \<Rightarrow> int \<times> 'x world" where
  "ext2_remove_dir fs dir_inode name w =
     (-1, hal_uart_puts ''ext2: remove_dir not yet implemented\<newline>'' w)"

section \<open>The VFS layer (\<^verbatim>\<open>vfs.c\<close>)\<close>

subsection \<open>Data\<close>

text \<open>\<^verbatim>\<open>vfs_file_t\<close>, one row of the file-descriptor table. \<open>f_node = None\<close> is a NULL node.\<close>

record vfs_file =
  f_node :: "node_ref option"
  f_flags :: "32 word"
  f_pos :: "32 word"
  f_in_use :: bool

text \<open>
  The two statics of \<^verbatim>\<open>vfs.c\<close>. The array \<^verbatim>\<open>g_file_table[VFS_MAX_OPEN_FILES]\<close> is a list;
  the header that defines \<^verbatim>\<open>VFS_MAX_OPEN_FILES\<close> is not part of the sources, so the constant
  is read off the array as its length.
\<close>

record vfs_state =
  g_file_table :: "vfs_file list"
  g_root_fs :: "fs_ref option"

definition VFS_MAX_OPEN_FILES :: "vfs_state \<Rightarrow> nat" where
  "VFS_MAX_OPEN_FILES st = length (g_file_table st)"

text \<open>
  The operations vtable \<^verbatim>\<open>vfs_ops_t\<close>: a NULL function pointer is \<open>None\<close>. A node
  operation may change anything in the world (allocate nodes, set \<^verbatim>\<open>errno\<close>, print), but
  not the statics of \<^verbatim>\<open>vfs.c\<close>, which it can only reach by calling back into the VFS.
  The read operation returns the bytes it stored in the caller's buffer.
\<close>

record 'x vfs_ops =
  op_lookup :: "(node_ref \<Rightarrow> string \<Rightarrow> 'x world \<Rightarrow> node_ref option \<times> 'x world) option"
  op_read :: "(node_ref \<Rightarrow> 32 word \<Rightarrow> 32 word \<Rightarrow> 'x world \<Rightarrow> int \<times> 8 word list \<times> 'x world) option"
  op_write :: "(node_ref \<Rightarrow> 32 word \<Rightarrow> 8 word list \<Rightarrow> 32 word \<Rightarrow> 'x world \<Rightarrow> int \<times> 'x world) option"
  op_open :: "(node_ref \<Rightarrow> 32 word \<Rightarrow> 'x world \<Rightarrow> int \<times> 'x world) option"
  op_close :: "(node_ref \<Rightarrow> 'x world \<Rightarrow> int \<times> 'x world) option"
  op_create :: "(node_ref \<Rightarrow> string \<Rightarrow> 32 word \<Rightarrow> 'x world \<Rightarrow> int \<times> 'x world) option"
  op_mkdir :: "(node_ref \<Rightarrow> string \<Rightarrow> 32 word \<Rightarrow> 'x world \<Rightarrow> int \<times> 'x world) option"
  op_rmdir :: "(node_ref \<Rightarrow> string \<Rightarrow> 'x world \<Rightarrow> int \<times> 'x world) option"
  op_unlink :: "(node_ref \<Rightarrow> string \<Rightarrow> 'x world \<Rightarrow> int \<times> 'x world) option"

text \<open>
  What \<^verbatim>\<open>vfs.c\<close> takes from outside: the operation tables that \<^verbatim>\<open>ops\<close> pointers refer to,
  and the three \<^verbatim>\<open>whence\<close> constants of the missing header \<^verbatim>\<open>vfs.h\<close>.
\<close>

record 'x vfs_env =
  ops_table :: "ops_ref \<Rightarrow> 'x vfs_ops"
  SEEK_SET :: int
  SEEK_CUR :: int
  SEEK_END :: int

text \<open>Modelled from the spec: the open flags of the missing header \<^verbatim>\<open>vfs.h\<close>, as listed
  under "Open flags".\<close>

definition O_RDONLY :: "32 word" where "O_RDONLY = 0"
definition O_WRONLY :: "32 word" where "O_WRONLY = 1"
definition O_RDWR :: "32 word" where "O_RDWR = 2"
definition O_CREAT :: "32 word" where "O_CREAT = 0x100"
definition O_TRUNC :: "32 word" where "O_TRUNC = 0x200"
definition O_APPEND :: "32 word" where "O_APPEND = 0x400"

text \<open>Modelled from the spec: the reserved descriptor indices of the missing header
  \<^verbatim>\<open>vfs.h\<close> ("Indices 0/1/2 are reserved for stdin/stdout/stderr").\<close>

definition VFS_FD_STDIN :: nat where "VFS_FD_STDIN = 0"
definition VFS_FD_STDOUT :: nat where "VFS_FD_STDOUT = 1"
definition VFS_FD_STDERR :: nat where "VFS_FD_STDERR = 2"

text \<open>\<^verbatim>\<open>node->ops\<close>, followed when it is not NULL.\<close>

definition node_ops :: "'x vfs_env \<Rightarrow> 'x world \<Rightarrow> node_ref \<Rightarrow> 'x vfs_ops option" where
  "node_ops env w n = map_option (ops_table env) (n_ops (w_nodes w n))"

text \<open>\<^verbatim>\<open>node->ops && node->ops->f\<close>: the function pointer \<open>f\<close> when both are set.\<close>

definition node_op :: "'x vfs_env \<Rightarrow> 'x world \<Rightarrow> node_ref \<Rightarrow> ('x vfs_ops \<Rightarrow> 'f option) \<Rightarrow> 'f option" where
  "node_op env w n sel = (case node_ops env w n of None \<Rightarrow> None | Some ops \<Rightarrow> sel ops)"

definition free_file :: vfs_file where
  "free_file = \<lparr>f_node = None, f_flags = 0, f_pos = 0, f_in_use = False\<rparr>"

subsection \<open>Descriptor table\<close>

definition vfs_init :: "vfs_state \<Rightarrow> 'x world \<Rightarrow> (int \<times> vfs_state \<times> 'x world) outcome" where
  "vfs_init st w =
     (let tbl = map (\<lambda>_. free_file) (g_file_table st) in
      if VFS_MAX_OPEN_FILES st \<le> VFS_FD_STDERR then Fault
      else
        let tbl1 = tbl[VFS_FD_STDIN := (tbl ! VFS_FD_STDIN)\<lparr>f_in_use := True\<rparr>];
            tbl2 = tbl1[VFS_FD_STDOUT := (tbl1 ! VFS_FD_STDOUT)\<lparr>f_in_use := True\<rparr>];
            tbl3 = tbl2[VFS_FD_STDERR := (tbl2 ! VFS_FD_STDERR)\<lparr>f_in_use := True\<rparr>]
        in Ret (0, \<lparr>g_file_table = tbl3, g_root_fs = None\<rparr>,
                hal_uart_puts ''vfs: Initialized\<newline>'' w))"

definition vfs_mount_root ::
  "fs_ref option \<Rightarrow> vfs_state \<Rightarrow> 'x world \<Rightarrow> int \<times> vfs_state \<times> 'x world" where
  "vfs_mount_root fs st w =
     (case fs of
        None \<Rightarrow> (-1, st, hal_uart_puts ''vfs: Invalid filesystem\<newline>'' w)
      | Some f \<Rightarrow>
          if fs_root (w_filesystems w f) = None
          then (-1, st, hal_uart_puts ''vfs: Invalid filesystem\<newline>'' w)
          else (0, st\<lparr>g_root_fs := Some f\<rparr>,
                hal_uart_puts '')\<newline>''
                  (hal_uart_puts (fs_name (w_filesystems w f))
                    (hal_uart_puts ''vfs: Mounted root filesystem ('' w))))"

text \<open>The scan of \<^verbatim>\<open>vfs_alloc_fd\<close> visits the indices 3, 4, ... in order and takes the
  first row that is not in use.\<close>

definition vfs_alloc_fd :: "vfs_state \<Rightarrow> int \<times> vfs_state" where
  "vfs_alloc_fd st =
     (case find (\<lambda>i. \<not> f_in_use (g_file_table st ! i)) [3..<VFS_MAX_OPEN_FILES st] of
        None \<Rightarrow> (-1, st)
      | Some i \<Rightarrow>
          (int i, st\<lparr>g_file_table := (g_file_table st)
                     [i := \<lparr>f_node = None, f_flags = 0, f_pos = 0, f_in_use = True\<rparr>]\<rparr>))"

definition vfs_free_fd :: "int \<Rightarrow> vfs_state \<Rightarrow> vfs_state" where
  "vfs_free_fd fd st =
     (if fd \<ge> 0 \<and> fd < int (VFS_MAX_OPEN_FILES st)
      then st\<lparr>g_file_table := (g_file_table st)[nat fd := free_file]\<rparr>
      else st)"

definition vfs_get_file :: "vfs_state \<Rightarrow> int \<Rightarrow> vfs_file option" where
  "vfs_get_file st fd =
     (if fd < 0 \<or> fd \<ge> int (VFS_MAX_OPEN_FILES st) \<or> \<not> f_in_use (g_file_table st ! nat fd)
      then None
      else Some (g_file_table st ! nat fd))"

text \<open>Assignment through the pointer that \<^verbatim>\<open>vfs_get_file\<close> returned.\<close>

definition set_pos :: "int \<Rightarrow> 32 word \<Rightarrow> vfs_state \<Rightarrow> vfs_state" where
  "set_pos fd p st =
     st\<lparr>g_file_table := (g_file_table st)[nat fd := (g_file_table st ! nat fd)\<lparr>f_pos := p\<rparr>]\<rparr>"

subsection \<open>Path resolution\<close>

text \<open>\<^verbatim>\<open>if (*path == '/') path++;\<close>\<close>

definition skip_sep :: "string \<Rightarrow> string" where
  "skip_sep path = (case path of [] \<Rightarrow> [] | c # r \<Rightarrow> if c = CHR ''/'' then r else c # r)"

text \<open>
  The \<^verbatim>\<open>while (*path)\<close> loop of \<^verbatim>\<open>vfs_resolve_path\<close>. The inner loop consumes the characters
  up to the next \<^verbatim>\<open>'/'\<close> or the end of the string and keeps the first 255 of them as the
  component. \<open>current = None\<close> is a NULL node, dereferenced at the first lookup.
\<close>

function resolve_loop ::
  "'x vfs_env \<Rightarrow> node_ref option \<Rightarrow> string \<Rightarrow> 'x world \<Rightarrow> (node_ref option \<times> 'x world) outcome" where
  "resolve_loop env current path w =
     (if path = [] then Ret (current, w)
      else
        let name = takeWhile (\<lambda>c. c \<noteq> CHR ''/'') path;
            rest = dropWhile (\<lambda>c. c \<noteq> CHR ''/'') path;
            component = take 255 name
        in
          if component = [] then resolve_loop env current (skip_sep rest) w
          else
            (case current of
               None \<Rightarrow> Fault
             | Some cur \<Rightarrow>
                 (case node_op env w cur op_lookup of
                    None \<Rightarrow> Ret (None, hal_uart_puts ''vfs: No lookup operation\<newline>'' w)
                  | Some lookup \<Rightarrow>
                      (case lookup cur component w of
                         (None, w') \<Rightarrow> Ret (None, w')
                       | (Some next, w') \<Rightarrow> resolve_loop env (Some next) (skip_sep rest) w'))))"
  by pat_completeness auto
termination
proof (relation "measure (\<lambda>(env, current, path, w). length path)")
  show "wf (measure (\<lambda>(env, current, path, w). length path))" by simp
next
  fix path :: string and name rest component
  assume ne: "path \<noteq> []"
    and n: "name = takeWhile (\<lambda>c. c \<noteq> CHR ''/'') path"
    and r: "rest = dropWhile (\<lambda>c. c \<noteq> CHR ''/'') path"
    and c: "component = take 255 name"
    and e: "component = []"
  from c e n have "takeWhile (\<lambda>c. c \<noteq> CHR ''/'') path = []" by simp
  with ne obtain t where "path = CHR ''/'' # t" by (cases path) (auto split: if_splits)
  with r have "skip_sep rest = t" by (simp add: skip_sep_def)
  with \<open>path = CHR ''/'' # t\<close> have "length (skip_sep rest) < length path" by simp
  then show "\<And>env current w. ((env, current, skip_sep rest, w), (env, current, path, w))
      \<in> measure (\<lambda>(env, current, path, w). length path)" by simp
next
  fix path :: string and name rest component
  assume ne: "path \<noteq> []"
    and n: "name = takeWhile (\<lambda>c. c \<noteq> CHR ''/'') path"
    and r: "rest = dropWhile (\<lambda>c. c \<noteq> CHR ''/'') path"
    and c: "component = take 255 name"
    and e: "component \<noteq> []"
  from c e n have "takeWhile (\<lambda>c. c \<noteq> CHR ''/'') path \<noteq> []" by auto
  then have "length (takeWhile (\<lambda>c. c \<noteq> CHR ''/'') path) > 0" by simp
  moreover have "length (takeWhile (\<lambda>c. c \<noteq> CHR ''/'') path) + length rest = length path"
    unfolding r by (metis length_append takeWhile_dropWhile_id)
  moreover have "length (skip_sep rest) \<le> length rest"
    by (simp add: skip_sep_def split: list.splits)
  ultimately have "length (skip_sep rest) < length path" by linarith
  then show "\<And>env next w' current w. ((env, Some next, skip_sep rest, w'), (env, current, path, w))
      \<in> measure (\<lambda>(env, current, path, w). length path)" by simp
qed

definition vfs_resolve_path ::
  "'x vfs_env \<Rightarrow> string option \<Rightarrow> vfs_state \<Rightarrow> 'x world \<Rightarrow> (node_ref option \<times> 'x world) outcome" where
  "vfs_resolve_path env path st w =
     (case g_root_fs st of
        None \<Rightarrow> Ret (None, hal_uart_puts ''vfs: No root filesystem mounted\<newline>'' w)
      | Some fs \<Rightarrow>
          (case path of
             None \<Rightarrow> Ret (None, hal_uart_puts ''vfs: Path must be absolute (start with /)\<newline>'' w)
           | Some [] \<Rightarrow> Ret (None, hal_uart_puts ''vfs: Path must be absolute (start with /)\<newline>'' w)
           | Some (c # r) \<Rightarrow>
               if c \<noteq> CHR ''/''
               then Ret (None, hal_uart_puts ''vfs: Path must be absolute (start with /)\<newline>'' w)
               else if r = [] then Ret (fs_root (w_filesystems w fs), w)
               else resolve_loop env (fs_root (w_filesystems w fs)) r w))"

declare resolve_loop.simps [simp del]

subsection \<open>Opening and closing\<close>

text \<open>The tail of \<^verbatim>\<open>vfs_open\<close> after the open operation: \<^verbatim>\<open>O_TRUNC\<close>, \<^verbatim>\<open>O_APPEND\<close>, return.\<close>

definition vfs_open_finish ::
  "32 word \<Rightarrow> node_ref \<Rightarrow> int \<Rightarrow> vfs_state \<Rightarrow> 'x world \<Rightarrow> (int \<times> vfs_state \<times> 'x world) outcome" where
  "vfs_open_finish flags n fd st w =
     (let w1 = (if flags AND O_TRUNC \<noteq> 0
                then w\<lparr>w_nodes := (w_nodes w)(n := (w_nodes w n)\<lparr>n_size := 0\<rparr>)\<rparr>
                else w);
          st1 = (if flags AND O_APPEND \<noteq> 0 then set_pos fd (n_size (w_nodes w1 n)) st else st)
      in Ret (fd, st1, w1))"

text \<open>\<^verbatim>\<open>vfs_open\<close> from the test \<^verbatim>\<open>if (!node)\<close> on, with the node found so far.\<close>

definition vfs_open_node ::
  "'x vfs_env \<Rightarrow> string \<Rightarrow> 32 word \<Rightarrow> node_ref option \<Rightarrow> vfs_state \<Rightarrow> 'x world \<Rightarrow>
   (int \<times> vfs_state \<times> 'x world) outcome" where
  "vfs_open_node env p flags node st w =
     (case node of
        None \<Rightarrow>
          Ret (-1, st, hal_uart_puts ''\<newline>''
                        (hal_uart_puts p (hal_uart_puts ''vfs: File not found: '' w)))
      | Some n \<Rightarrow>
          (case vfs_alloc_fd st of
             (fd, st1) \<Rightarrow>
               if fd < 0 then Ret (-1, st1, hal_uart_puts ''vfs: No free file descriptors\<newline>'' w)
               else
                 let st2 = st1\<lparr>g_file_table := (g_file_table st1)
                             [nat fd := (g_file_table st1 ! nat fd)
                                \<lparr>f_node := Some n, f_flags := flags, f_pos := 0\<rparr>]\<rparr>
                 in
                   (case node_op env w n op_open of
                      None \<Rightarrow> vfs_open_finish flags n fd st2 w
                    | Some opn \<Rightarrow>
                        (case opn n flags w of
                           (ret, w1) \<Rightarrow>
                             if ret \<noteq> 0 then Ret (-1, vfs_free_fd fd st2, w1)
                             else vfs_open_finish flags n fd st2 w1))))"

text \<open>
  The \<^verbatim>\<open>O_CREAT\<close> branch of \<^verbatim>\<open>vfs_open\<close>, entered when the path did not resolve. It yields
  either the final result of \<^verbatim>\<open>vfs_open\<close> (\<open>Inl\<close>: an early return or a fault) or the node to
  go on with (\<open>Inr\<close>). \<^verbatim>\<open>g_root_fs->root\<close> and \<^verbatim>\<open>root->ops\<close> are dereferenced unchecked.
  The mode \<^verbatim>\<open>0644\<close> is octal, \<open>0x1A4\<close>.
\<close>

definition vfs_open_create ::
  "'x vfs_env \<Rightarrow> string \<Rightarrow> vfs_state \<Rightarrow> 'x world \<Rightarrow>
   (int \<times> vfs_state \<times> 'x world) outcome + (node_ref option \<times> 'x world)" where
  "vfs_open_create env p st w =
     (case p of
        [] \<Rightarrow> Inr (None, w)
      | c # filename \<Rightarrow>
          if \<not> (c = CHR ''/'' \<and> filename \<noteq> []) then Inr (None, w)
          else if dropWhile (\<lambda>c. c \<noteq> CHR ''/'') filename \<noteq> []
            then Inl (Ret (-1, st,
                   hal_uart_puts ''vfs: O_CREAT only supports root directory for now\<newline>'' w))
            else
              (case g_root_fs st of
                 None \<Rightarrow> Inl Fault
               | Some fs \<Rightarrow>
                   (case fs_root (w_filesystems w fs) of
                      None \<Rightarrow> Inl Fault
                    | Some root \<Rightarrow>
                        (case node_op env w root op_create of
                           None \<Rightarrow> Inr (None, w)
                         | Some create \<Rightarrow>
                             (case create root filename 0x1A4 w of
                                (ret, w1) \<Rightarrow>
                                  if ret \<noteq> 0
                                  then Inl (Ret (-1, st,
                                         hal_uart_puts ''vfs: Failed to create file\<newline>'' w1))
                                  else
                                    (case vfs_resolve_path env (Some p) st w1 of
                                       Fault \<Rightarrow> Inl Fault
                                     | Ret nw \<Rightarrow> Inr nw))))))"

definition vfs_open ::
  "'x vfs_env \<Rightarrow> string option \<Rightarrow> 32 word \<Rightarrow> vfs_state \<Rightarrow> 'x world \<Rightarrow>
   (int \<times> vfs_state \<times> 'x world) outcome" where
  "vfs_open env path flags st w =
     (case path of
        None \<Rightarrow> Ret (-1, st, hal_uart_puts ''vfs: NULL path\<newline>'' w)
      | Some p \<Rightarrow>
          (case vfs_resolve_path env (Some p) st w of
             Fault \<Rightarrow> Fault
           | Ret (node, w1) \<Rightarrow>
               if node = None \<and> flags AND O_CREAT \<noteq> 0
               then
                 (case vfs_open_create env p st w1 of
                    Inl result \<Rightarrow> result
                  | Inr (node', w2) \<Rightarrow> vfs_open_node env p flags node' st w2)
               else vfs_open_node env p flags node st w1))"

definition vfs_close :: "'x vfs_env \<Rightarrow> int \<Rightarrow> vfs_state \<Rightarrow> 'x world \<Rightarrow> int \<times> vfs_state \<times> 'x world" where
  "vfs_close env fd st w =
     (case vfs_get_file st fd of
        None \<Rightarrow> (-1, st, w)
      | Some file \<Rightarrow>
          let w1 = (case f_node file of
                      None \<Rightarrow> w
                    | Some n \<Rightarrow>
                        (case node_op env w n op_close of
                           None \<Rightarrow> w
                         | Some cls \<Rightarrow> snd (cls n w)))
          in (0, vfs_free_fd fd st, w1))"

subsection \<open>Reading, writing, seeking\<close>

text \<open>
  \<^verbatim>\<open>vfs_read\<close> returns the \<^verbatim>\<open>int\<close> result and the bytes stored in the caller's buffer (none
  on the paths that never reach the node's read operation). The position is a
  \<^verbatim>\<open>uint32_t\<close>: adding the \<^verbatim>\<open>int\<close> byte count wraps modulo \<open>2^32\<close>.
\<close>

definition vfs_read ::
  "'x vfs_env \<Rightarrow> int \<Rightarrow> 32 word \<Rightarrow> vfs_state \<Rightarrow> 'x world \<Rightarrow> int \<times> 8 word list \<times> vfs_state \<times> 'x world" where
  "vfs_read env fd sz st w =
     (case vfs_get_file st fd of
        None \<Rightarrow> (-1, [], st, w)
      | Some file \<Rightarrow>
          (case f_node file of
             None \<Rightarrow> (-1, [], st, w)
           | Some n \<Rightarrow>
               if f_flags file AND O_WRONLY \<noteq> 0 \<and> \<not> (f_flags file AND O_RDWR \<noteq> 0)
               then (-1, [], st, hal_uart_puts ''vfs: File not open for reading\<newline>'' w)
               else
                 (case node_op env w n op_read of
                    None \<Rightarrow> (-1, [], st, hal_uart_puts ''vfs: No read operation\<newline>'' w)
                  | Some rd \<Rightarrow>
                      (case rd n (f_pos file) sz w of
                         (bytes_read, data, w1) \<Rightarrow>
                           (bytes_read, data,
                            if bytes_read > 0
                            then set_pos fd (f_pos file + word_of_int bytes_read) st
                            else st,
                            w1)))))"

definition vfs_write ::
  "'x vfs_env \<Rightarrow> int \<Rightarrow> 8 word list \<Rightarrow> 32 word \<Rightarrow> vfs_state \<Rightarrow> 'x world \<Rightarrow> int \<times> vfs_state \<times> 'x world" where
  "vfs_write env fd buffer sz st w =
     (case vfs_get_file st fd of
        None \<Rightarrow> (-1, st, w)
      | Some file \<Rightarrow>
          (case f_node file of
             None \<Rightarrow> (-1, st, w)
           | Some n \<Rightarrow>
               if f_flags file AND O_RDONLY \<noteq> 0 \<and> \<not> (f_flags file AND O_RDWR \<noteq> 0)
               then (-1, st, hal_uart_puts ''vfs: File not open for writing\<newline>'' w)
               else
                 (case node_op env w n op_write of
                    None \<Rightarrow> (-1, st, hal_uart_puts ''vfs: No write operation\<newline>'' w)
                  | Some wr \<Rightarrow>
                      (case wr n (f_pos file) buffer sz w of
                         (bytes_written, w1) \<Rightarrow>
                           if bytes_written > 0
                           then
                             let pos = f_pos file + word_of_int bytes_written;
                                 w2 = (if pos > n_size (w_nodes w1 n)
                                       then w1\<lparr>w_nodes := (w_nodes w1)
                                              (n := (w_nodes w1 n)\<lparr>n_size := pos\<rparr>)\<rparr>
                                       else w1)
                             in (bytes_written, set_pos fd pos st, w2)
                           else (bytes_written, st, w1)))))"

text \<open>
  \<^verbatim>\<open>vfs_seek\<close>: the \<^verbatim>\<open>int\<close> offset is converted to \<^verbatim>\<open>uint32_t\<close> and the sums wrap modulo
  \<open>2^32\<close>; the \<^verbatim>\<open>uint32_t\<close> position is returned as an \<^verbatim>\<open>int\<close>, that is, read back as two's
  complement. The \<^verbatim>\<open>switch\<close> tries the three case labels and falls to \<^verbatim>\<open>default\<close>.
\<close>

definition seek_to :: "int \<Rightarrow> 32 word \<Rightarrow> vfs_state \<Rightarrow> 'x world \<Rightarrow> int \<times> vfs_state \<times> 'x world" where
  "seek_to fd new_pos st w = (sint new_pos, set_pos fd new_pos st, w)"

definition vfs_seek ::
  "'x vfs_env \<Rightarrow> int \<Rightarrow> int \<Rightarrow> int \<Rightarrow> vfs_state \<Rightarrow> 'x world \<Rightarrow> int \<times> vfs_state \<times> 'x world" where
  "vfs_seek env fd offset whence st w =
     (case vfs_get_file st fd of
        None \<Rightarrow> (-1, st, w)
      | Some file \<Rightarrow>
          (case f_node file of
             None \<Rightarrow> (-1, st, w)
           | Some n \<Rightarrow>
               if whence = SEEK_SET env then seek_to fd (word_of_int offset) st w
               else if whence = SEEK_CUR env then seek_to fd (f_pos file + word_of_int offset) st w
               else if whence = SEEK_END env
               then seek_to fd (n_size (w_nodes w n) + word_of_int offset) st w
               else (-1, st, hal_uart_puts ''vfs: Invalid whence value\<newline>'' w)))"

subsection \<open>Directory-modifying operations\<close>

definition vfs_mkdir ::
  "'x vfs_env \<Rightarrow> string option \<Rightarrow> 32 word \<Rightarrow> vfs_state \<Rightarrow> 'x world \<Rightarrow> (int \<times> vfs_state \<times> 'x world) outcome" where
  "vfs_mkdir env path mode st w =
     (case g_root_fs st of
        None \<Rightarrow> Ret (-1, st, w)
      | Some fs \<Rightarrow>
          (case path of
             None \<Rightarrow> Ret (-1, st, w)
           | Some [] \<Rightarrow> Ret (-1, st, w)
           | Some (c # dirname) \<Rightarrow>
               if c \<noteq> CHR ''/'' \<or> dirname = [] then Ret (-1, st, w)
               else if dropWhile (\<lambda>c. c \<noteq> CHR ''/'') dirname \<noteq> []
               then Ret (-1, st,
                      hal_uart_puts ''vfs: mkdir only supports root directory for now\<newline>'' w)
               else
                 (case fs_root (w_filesystems w fs) of
                    None \<Rightarrow> Fault
                  | Some root \<Rightarrow>
                      (case node_op env w root op_mkdir of
                         None \<Rightarrow> Ret (-1, st, hal_uart_puts ''vfs: No mkdir operation\<newline>'' w)
                       | Some mk \<Rightarrow>
                           (case mk root dirname mode w of (ret, w1) \<Rightarrow> Ret (ret, st, w1))))))"

definition vfs_rmdir ::
  "'x vfs_env \<Rightarrow> string option \<Rightarrow> vfs_state \<Rightarrow> 'x world \<Rightarrow> (int \<times> vfs_state \<times> 'x world) outcome" where
  "vfs_rmdir env path st w =
     (case g_root_fs st of
        None \<Rightarrow> Ret (-1, st, w)
      | Some fs \<Rightarrow>
          (case path of
             None \<Rightarrow> Ret (-1, st, w)
           | Some [] \<Rightarrow> Ret (-1, st, w)
           | Some (c # dirname) \<Rightarrow>
               if c \<noteq> CHR ''/'' \<or> dirname = [] then Ret (-1, st, w)
               else
                 (case fs_root (w_filesystems w fs) of
                    None \<Rightarrow> Fault
                  | Some root \<Rightarrow>
                      (case node_op env w root op_rmdir of
                         None \<Rightarrow> Ret (-1, st, hal_uart_puts ''vfs: No rmdir operation\<newline>'' w)
                       | Some rm \<Rightarrow>
                           (case rm root dirname w of (ret, w1) \<Rightarrow> Ret (ret, st, w1))))))"

definition vfs_unlink ::
  "'x vfs_env \<Rightarrow> string option \<Rightarrow> vfs_state \<Rightarrow> 'x world \<Rightarrow> (int \<times> vfs_state \<times> 'x world) outcome" where
  "vfs_unlink env path st w =
     (case g_root_fs st of
        None \<Rightarrow> Ret (-1, st, w)
      | Some fs \<Rightarrow>
          (case path of
             None \<Rightarrow> Ret (-1, st, w)
           | Some [] \<Rightarrow> Ret (-1, st, w)
           | Some (c # filename) \<Rightarrow>
               if c \<noteq> CHR ''/'' \<or> filename = [] then Ret (-1, st, w)
               else
                 (case fs_root (w_filesystems w fs) of
                    None \<Rightarrow> Fault
                  | Some root \<Rightarrow>
                      (case node_op env w root op_unlink of
                         None \<Rightarrow> Ret (-1, st, hal_uart_puts ''vfs: No unlink operation\<newline>'' w)
                       | Some ul \<Rightarrow>
                           (case ul root filename w of (ret, w1) \<Rightarrow> Ret (ret, st, w1))))))"

section \<open>ext2 mount (\<^verbatim>\<open>ext2_super.c\<close>)\<close>

text \<open>
  The fields of \<^verbatim>\<open>ext2_superblock_t\<close> that \<^verbatim>\<open>ext2_mount\<close> reads. The header \<^verbatim>\<open>ext2.h\<close> is not
  part of the sources; the field widths are those of the on-disk format.
\<close>

record ext2_superblock =
  s_blocks_count :: "32 word"
  s_first_data_block :: "32 word"
  s_log_block_size :: "32 word"
  s_blocks_per_group :: "32 word"
  s_magic :: "16 word"
  s_inode_size :: "16 word"

text \<open>
  What \<^verbatim>\<open>ext2_super.c\<close> takes from outside.
  \<^item> \<open>virtio_blk_read sector count\<close> is the block driver's read: it returns the driver's
    \<^verbatim>\<open>int\<close> result and the bytes it stored in the buffer, \<open>512 * count\<close> of them when the
    result equals \<open>count\<close>.
  \<^item> \<open>kmalloc size\<close> returns the address of a fresh block, or \<open>None\<close> for NULL; \<open>kfree\<close>
    takes the address back.
  \<^item> \<open>superblock_of\<close> is the overlay of \<^verbatim>\<open>ext2_superblock_t\<close> on the bytes of the buffer.
  \<^item> The three constants come from the missing header \<^verbatim>\<open>ext2.h\<close>.
\<close>

record 'x ext2_env =
  virtio_blk_read :: "64 word \<Rightarrow> 32 word \<Rightarrow> 'x world \<Rightarrow> int \<times> 8 word list \<times> 'x world"
  kmalloc :: "nat \<Rightarrow> 'x world \<Rightarrow> nat option \<times> 'x world"
  kfree :: "nat \<Rightarrow> 'x world \<Rightarrow> 'x world"
  superblock_of :: "8 word list \<Rightarrow> ext2_superblock"
  EXT2_MIN_BLOCK_SIZE :: "32 word"
  EXT2_MAX_BLOCK_SIZE :: "32 word"
  EXT2_INODE_SIZE :: "32 word"

text \<open>Modelled from the spec: constants of the missing header \<^verbatim>\<open>ext2.h\<close>. The magic number
  is \<open>0xEF53\<close>, the superblock is 1024 bytes long, a block group descriptor is 32 bytes.\<close>

definition EXT2_SUPER_MAGIC :: "16 word" where "EXT2_SUPER_MAGIC = 0xEF53"
definition EXT2_SUPERBLOCK_SIZE :: nat where "EXT2_SUPERBLOCK_SIZE = 1024"
definition sizeof_ext2_group_desc_t :: "32 word" where "sizeof_ext2_group_desc_t = 32"

text \<open>
  The \<^verbatim>\<open>for\<close> loop of \<^verbatim>\<open>read_block\<close> over the sector indices still to read. \<open>room\<close> is the
  number of bytes from the \<^verbatim>\<open>buffer\<close> pointer to the end of the heap block it points into:
  handing the driver \<^verbatim>\<open>buffer + i * 512\<close> with fewer than 512 bytes left is a fault. The
  result is the \<^verbatim>\<open>int\<close> returned, the bytes stored in the buffer, the sectors requested from
  the driver (oldest first) and the world. \<^verbatim>\<open>sector + i\<close> is a \<^verbatim>\<open>uint32_t\<close> sum, widened to
  64 bits.
\<close>

fun read_sectors ::
  "'x ext2_env \<Rightarrow> 32 word \<Rightarrow> nat \<Rightarrow> nat list \<Rightarrow> 'x world \<Rightarrow>
   (int \<times> 8 word list \<times> 64 word list \<times> 'x world) outcome" where
  "read_sectors env sector room [] w = Ret (0, [], [], w)"
| "read_sectors env sector room (i # is) w =
     (if room < i * 512 + 512 then Fault
      else
        (case virtio_blk_read env (ucast (sector + of_nat i)) 1 w of
           (ret, data, w1) \<Rightarrow>
             if ret \<noteq> 1
             then Ret (-1, data, [ucast (sector + of_nat i)],
                       hal_uart_puts ''\<newline>''
                         (hal_uart_put_uint32 (sector + of_nat i)
                           (hal_uart_puts ''ext2: Failed to read sector '' w1)))
             else
               (case read_sectors env sector room is w1 of
                  Fault \<Rightarrow> Fault
                | Ret (r, data', reads, w2) \<Rightarrow>
                    Ret (r, data @ data', ucast (sector + of_nat i) # reads, w2))))"

definition read_block ::
  "'x ext2_env \<Rightarrow> nat option \<Rightarrow> 32 word \<Rightarrow> 32 word \<Rightarrow> nat \<Rightarrow> 'x world \<Rightarrow>
   (int \<times> 8 word list \<times> 64 word list \<times> 'x world) outcome" where
  "read_block env dev block_num bsize room w =
     (let sector = (block_num * bsize) div 512;
          num_sectors = bsize div 512
      in read_sectors env sector room [0..<unat num_sectors] w)"

text \<open>
  The \<^verbatim>\<open>for\<close> loop of \<^verbatim>\<open>ext2_mount\<close> that reads the group descriptor table, over the block
  indices still to read. Block \<open>i\<close> goes to \<^verbatim>\<open>group_desc + i * block_size\<close> (a \<^verbatim>\<open>uint32_t\<close>
  product) in a heap block of \<open>gdt_size\<close> bytes, which leaves
  \<open>gdt_size - i * block_size\<close> bytes of room, none if the offset is past the end. The first
  component of the result is the number of the block whose read failed, if any.
\<close>

fun read_gdt ::
  "'x ext2_env \<Rightarrow> nat option \<Rightarrow> 32 word \<Rightarrow> 32 word \<Rightarrow> 32 word \<Rightarrow> nat list \<Rightarrow> 'x world \<Rightarrow>
   (32 word option \<times> 8 word list \<times> 64 word list \<times> 'x world) outcome" where
  "read_gdt env dev gdt_block bsize gdt_size [] w = Ret (None, [], [], w)"
| "read_gdt env dev gdt_block bsize gdt_size (i # is) w =
     (case read_block env dev (gdt_block + of_nat i) bsize
             (unat gdt_size - unat (of_nat i * bsize)) w of
        Fault \<Rightarrow> Fault
      | Ret (ret, data, reads, w1) \<Rightarrow>
          if ret \<noteq> 0 then Ret (Some (gdt_block + of_nat i), data, reads, w1)
          else
            (case read_gdt env dev gdt_block bsize gdt_size is w1 of
               Fault \<Rightarrow> Fault
             | Ret (failed, data', reads', w2) \<Rightarrow>
                 Ret (failed, data @ data', reads @ reads', w2)))"

text \<open>
  \<^verbatim>\<open>ext2_mount\<close> from "Calculate number of block groups" to the end, with the superblock
  \<open>sb\<close> read from the buffer at address \<open>sb_addr\<close>. All arithmetic is \<^verbatim>\<open>uint32_t\<close> and wraps;
  a division by zero is a fault, and so is a descriptor block read past the end of the
  table's heap block (which happens when \<^verbatim>\<open>gdt_blocks * block_size\<close> wraps). The sectors
  listed are those requested in this part.
\<close>

definition ext2_mount_groups ::
  "'x ext2_env \<Rightarrow> nat option \<Rightarrow> ext2_fs \<Rightarrow> ext2_superblock \<Rightarrow> nat \<Rightarrow> 'x world \<Rightarrow>
   (int \<times> ext2_fs \<times> 64 word list \<times> 'x world) outcome" where
  "ext2_mount_groups env dev fs sb sb_addr w =
     (if s_blocks_per_group sb = 0 then Fault
      else
        let fs1 = fs\<lparr>num_groups :=
                    (s_blocks_count sb + s_blocks_per_group sb - 1) div s_blocks_per_group sb\<rparr>;
            inode_size = (if s_inode_size sb > 0 then ucast (s_inode_size sb)
                          else EXT2_INODE_SIZE env)
        in
          if inode_size = 0 then Fault
          else
            let fs2 = fs1\<lparr>inodes_per_block := block_size fs1 div inode_size\<rparr>;
                fs3 = fs2\<lparr>desc_per_block := block_size fs2 div sizeof_ext2_group_desc_t\<rparr>
            in
              if desc_per_block fs3 = 0 then Fault
              else
                let gdt_blocks = (num_groups fs3 + desc_per_block fs3 - 1) div desc_per_block fs3;
                    gdt_size = gdt_blocks * block_size fs3
                in
                  (case kmalloc env (unat gdt_size) w of
                     (None, w1) \<Rightarrow>
                       Ret (-1, fs3\<lparr>superblock := None\<rparr>, [],
                            kfree env sb_addr
                              (hal_uart_puts ''ext2: Failed to allocate group descriptor table\<newline>'' w1))
                   | (Some g, w1) \<Rightarrow>
                       let gdt_block = s_first_data_block sb + 1 in
                       (case read_gdt env dev gdt_block (block_size fs3) gdt_size
                               [0..<unat gdt_blocks] w1 of
                          Fault \<Rightarrow> Fault
                        | Ret (Some failed, data, reads, w2) \<Rightarrow>
                            Ret (-1, fs3\<lparr>superblock := None, group_desc := None\<rparr>, reads,
                                 kfree env sb_addr
                                   (kfree env g
                                     (hal_uart_puts ''\<newline>''
                                       (hal_uart_put_uint32 failed
                                         (hal_uart_puts ''ext2: Failed to read group descriptor block '' w2)))))
                        | Ret (None, data, reads, w2) \<Rightarrow>
                            Ret (0, fs3\<lparr>group_desc := Some \<lparr>kb_addr = g, kb_bytes = data\<rparr>\<rparr>, reads,
                                 hal_uart_puts ''ext2: Mounted filesystem successfully\<newline>'' w2))))"

text \<open>
  \<^verbatim>\<open>ext2_mount\<close> from "Verify magic number" on, with both superblock sectors in the buffer.
  \<^verbatim>\<open>1024 << s_log_block_size\<close> is a fault when the shift count reaches the width of \<^verbatim>\<open>int\<close>;
  below that the result is the low 32 bits of the product.
\<close>

definition ext2_mount_check ::
  "'x ext2_env \<Rightarrow> nat option \<Rightarrow> ext2_fs \<Rightarrow> kbuf \<Rightarrow> 'x world \<Rightarrow>
   (int \<times> ext2_fs \<times> 64 word list \<times> 'x world) outcome" where
  "ext2_mount_check env dev fs buf w =
     (let sb = superblock_of env (kb_bytes buf) in
      if s_magic sb \<noteq> EXT2_SUPER_MAGIC
      then Ret (-1, fs\<lparr>superblock := None\<rparr>, [],
                kfree env (kb_addr buf)
                  (hal_uart_puts '' (expected 0xEF53)\<newline>''
                    (hal_uart_put_hex (ucast (s_magic sb))
                      (hal_uart_puts ''ext2: Invalid magic number: 0x'' w))))
      else if 32 \<le> unat (s_log_block_size sb) then Fault
      else
        let fs1 = fs\<lparr>block_size := push_bit (unat (s_log_block_size sb)) 1024\<rparr> in
        if block_size fs1 < EXT2_MIN_BLOCK_SIZE env \<or> block_size fs1 > EXT2_MAX_BLOCK_SIZE env
        then Ret (-1, fs1\<lparr>superblock := None\<rparr>, [],
                  kfree env (kb_addr buf)
                    (hal_uart_puts ''\<newline>''
                      (hal_uart_put_uint32 (block_size fs1)
                        (hal_uart_puts ''ext2: Invalid block size: '' w))))
        else ext2_mount_groups env dev fs1 sb (kb_addr buf) w)"

text \<open>
  \<^verbatim>\<open>ext2_mount(fs, device)\<close>. The result is the \<^verbatim>\<open>int\<close> returned, the struct \<^verbatim>\<open>*fs\<close> as the call
  leaves it (\<open>None\<close> when \<^verbatim>\<open>fs\<close> is NULL), the sectors requested from the block driver during
  the call, oldest first, and the world.
\<close>

definition ext2_mount ::
  "'x ext2_env \<Rightarrow> ext2_fs option \<Rightarrow> nat option \<Rightarrow> 'x world \<Rightarrow>
   (int \<times> ext2_fs option \<times> 64 word list \<times> 'x world) outcome" where
  "ext2_mount env fsp dev w =
     (case fsp of
        None \<Rightarrow> Ret (-1, None, [], hal_uart_puts ''ext2: Invalid parameters to ext2_mount\<newline>'' w)
      | Some fs0 \<Rightarrow>
          if dev = None
          then Ret (-1, Some fs0, [], hal_uart_puts ''ext2: Invalid parameters to ext2_mount\<newline>'' w)
          else
            let fs = fs0\<lparr>device := dev, superblock := None, group_desc := None\<rparr> in
            (case kmalloc env EXT2_SUPERBLOCK_SIZE w of
               (None, w1) \<Rightarrow>
                 Ret (-1, Some fs, [],
                      hal_uart_puts ''ext2: Failed to allocate superblock buffer\<newline>'' w1)
             | (Some a, w1) \<Rightarrow>
                 (case virtio_blk_read env 2 1 w1 of
                    (ret2, d2, w2) \<Rightarrow>
                      if ret2 \<noteq> 1
                      then Ret (-1, Some fs, [2],
                                kfree env a
                                  (hal_uart_puts ''ext2: Failed to read superblock sector 2\<newline>'' w2))
                      else
                        (case virtio_blk_read env 3 1 w2 of
                           (ret3, d3, w3) \<Rightarrow>
                             if ret3 \<noteq> 1
                             then Ret (-1, Some fs, [2, 3],
                                       kfree env a
                                         (hal_uart_puts ''ext2: Failed to read superblock sector 3\<newline>'' w3))
                             else
                               let buf = \<lparr>kb_addr = a, kb_bytes = d2 @ d3\<rparr> in
                               (case ext2_mount_check env dev (fs\<lparr>superblock := Some buf\<rparr>) buf w3 of
                                  Fault \<Rightarrow> Fault
                                | Ret (r, fs', reads, w4) \<Rightarrow> Ret (r, Some fs', [2, 3] @ reads, w4))))))"

text \<open>
  The sector numbers that \<^verbatim>\<open>read_block\<close> passes to the driver for the arguments \<open>block_num\<close>
  and \<open>bsize\<close>, in order: the first is \<^verbatim>\<open>(block_num * block_size) / 512\<close> with the product
  taken in \<^verbatim>\<open>uint32_t\<close>, so it wraps once the byte offset of the block reaches \<open>2^32\<close>.
\<close>

definition read_block_requests :: "32 word \<Rightarrow> 32 word \<Rightarrow> 64 word list" where
  "read_block_requests block_num bsize =
     map (\<lambda>i. ucast ((block_num * bsize) div 512 + of_nat i)) [0..<unat (bsize div 512)]"


section \<open>A small mounted filesystem\<close>

text \<open>
  A concrete instance for evaluating the operations: node 0 is the root directory, with
  the entries \<^verbatim>\<open>a\<close> (directory, node 1) and \<^verbatim>\<open>locked\<close> (file, node 3, whose open operation
  fails); node 1 has the entry \<^verbatim>\<open>b\<close> (file of 14 bytes, node 2). The external state is the
  list of directory modifications requested from the filesystem, oldest first.
\<close>

definition demo_ops :: "string list vfs_ops" where
  "demo_ops =
     \<lparr>op_lookup = Some (\<lambda>n name w.
          (if n = 0 \<and> name = ''a'' then Some 1
           else if n = 0 \<and> name = ''locked'' then Some 3
           else if n = 1 \<and> name = ''b'' then Some 2
           else None, w)),
      op_read = None,
      op_write = None,
      op_open = Some (\<lambda>n flags w. (if n = 3 then -1 else 0, w)),
      op_close = None,
      op_create = None,
      op_mkdir = Some (\<lambda>n name mode w. (0, w\<lparr>w_ext := w_ext w @ [''mkdir '' @ name]\<rparr>)),
      op_rmdir = Some (\<lambda>n name w. (0, w\<lparr>w_ext := w_ext w @ [''rmdir '' @ name]\<rparr>)),
      op_unlink = Some (\<lambda>n name w. (0, w\<lparr>w_ext := w_ext w @ [''unlink '' @ name]\<rparr>))\<rparr>"

definition demo_env :: "string list vfs_env" where
  "demo_env = \<lparr>ops_table = (\<lambda>_. demo_ops), SEEK_SET = 0, SEEK_CUR = 1, SEEK_END = 2\<rparr>"

definition demo_world :: "string list world" where
  "demo_world =
     \<lparr>errno = 0,
      console = [],
      w_nodes = (\<lambda>n. \<lparr>n_type = (if n = 2 \<or> n = 3 then 1 else 2),
                       n_size = (if n = 2 then 14 else 0),
                       n_ops = Some 0\<rparr>),
      w_filesystems = (\<lambda>_. \<lparr>fs_name = ''demo'', fs_root = Some 0\<rparr>),
      w_ext = []\<rparr>"

text \<open>The descriptor table as \<^verbatim>\<open>vfs_init\<close> leaves it with eight rows, root mounted, and
  descriptor 3 open on node 2 at position 5.\<close>

definition demo_state :: vfs_state where
  "demo_state =
     \<lparr>g_file_table =
        [free_file\<lparr>f_in_use := True\<rparr>, free_file\<lparr>f_in_use := True\<rparr>, free_file\<lparr>f_in_use := True\<rparr>,
         \<lparr>f_node = Some 2, f_flags = 0, f_pos = 5, f_in_use = True\<rparr>,
         free_file, free_file, free_file, free_file],
      g_root_fs = Some 0\<rparr>"

section \<open>A small disk\<close>

text \<open>
  A concrete instance for evaluating \<^verbatim>\<open>ext2_mount\<close>. The superblock overlay reads the
  little-endian fields at their offsets in the ext2 on-disk format. The disk delivers every
  sector; sector 2 holds the first half of the superblock and all other sectors are zero.
  The heap is a bump allocator that never runs out: the external state is the next free
  address.
\<close>

definition le16 :: "8 word list \<Rightarrow> nat \<Rightarrow> 16 word" where
  "le16 b i = ucast (b ! i) + 256 * ucast (b ! (i + 1))"

definition le32 :: "8 word list \<Rightarrow> nat \<Rightarrow> 32 word" where
  "le32 b i = ucast (b ! i) + 256 * ucast (b ! (i + 1)) + 65536 * ucast (b ! (i + 2))
              + 16777216 * ucast (b ! (i + 3))"

definition ext2_superblock_layout :: "8 word list \<Rightarrow> ext2_superblock" where
  "ext2_superblock_layout b =
     \<lparr>s_blocks_count = le32 b 4,
      s_first_data_block = le32 b 20,
      s_log_block_size = le32 b 24,
      s_blocks_per_group = le32 b 32,
      s_magic = le16 b 56,
      s_inode_size = le16 b 88\<rparr>"

text \<open>Sector 2 of a disk with 1024-byte blocks, 8192 blocks per group, first data block 1,
  128-byte inodes and the magic number; \<open>blocks\<close> are the four bytes of \<^verbatim>\<open>s_blocks_count\<close>.\<close>

definition demo_superblock_sector :: "8 word list \<Rightarrow> 8 word list" where
  "demo_superblock_sector blocks =
     replicate 4 0 @ blocks @ replicate 12 0 @ [1, 0, 0, 0] @ [0, 0, 0, 0] @ replicate 4 0
     @ [0, 0x20, 0, 0] @ replicate 20 0 @ [0x53, 0xEF] @ replicate 30 0 @ [0x80, 0]
     @ replicate 422 0"


definition demo_ext2_env :: "8 word list \<Rightarrow> nat ext2_env" where
  "demo_ext2_env sector2 =
     \<lparr>virtio_blk_read = (\<lambda>sector count w. (1, if sector = 2 then sector2 else replicate 512 0, w)),
      kmalloc = (\<lambda>sz w. (Some (w_ext w), w\<lparr>w_ext := w_ext w + sz\<rparr>)),
      kfree = (\<lambda>a w. w),
      superblock_of = ext2_superblock_layout,
      EXT2_MIN_BLOCK_SIZE = 1024,
      EXT2_MAX_BLOCK_SIZE = 4096,
      EXT2_INODE_SIZE = 128\<rparr>"

definition demo_heap_world :: "nat world" where
  "demo_heap_world =
     \<lparr>errno = 0, console = [], w_nodes = w_nodes demo_world,
      w_filesystems = w_filesystems demo_world, w_ext = 4096\<rparr>"

definition demo_fs :: ext2_fs where
  "demo_fs = \<lparr>device = None, superblock = None, group_desc = None, block_size = 0,
              num_groups = 0, inodes_per_block = 0, desc_per_block = 0\<rparr>"

section \<open>Redundant separators\<close>

text \<open>
  The path with every run of consecutive \<^verbatim>\<open>'/'\<close> replaced by a single \<^verbatim>\<open>'/'\<close>: the reading of
  "redundant separators" against which path resolution is compared.
\<close>

fun squeeze_slashes :: "string \<Rightarrow> string" where
  "squeeze_slashes (a # b # r) =
     (if a = CHR ''/'' \<and> b = CHR ''/'' then squeeze_slashes (b # r)
      else a # squeeze_slashes (b # r))"
| "squeeze_slashes r = r"

section \<open>The ext2 write stubs\<close>

text \<open>
  C3 (as amended). Each of the five ext2 write operations returns -1 for all arguments,
  appends its "not yet implemented" line to the console, and leaves \<^verbatim>\<open>errno\<close> and every
  other part of the state as it was.
\<close>

theorem ext2_write_stubs_return_failure:
  "ext2_write_file fs ino off buf sz w =
     (-1, w\<lparr>console := console w @ [Puts ''ext2: write_file not yet implemented\<newline>'']\<rparr>)
   \<and> ext2_create_file fs ino name mode w =
     (-1, w\<lparr>console := console w @ [Puts ''ext2: create_file not yet implemented\<newline>'']\<rparr>)
   \<and> ext2_create_dir fs ino name mode w =
     (-1, w\<lparr>console := console w @ [Puts ''ext2: create_dir not yet implemented\<newline>'']\<rparr>)
   \<and> ext2_remove_file fs ino name w =
     (-1, w\<lparr>console := console w @ [Puts ''ext2: remove_file not yet implemented\<newline>'']\<rparr>)
   \<and> ext2_remove_dir fs ino name w =
     (-1, w\<lparr>console := console w @ [Puts ''ext2: remove_dir not yet implemented\<newline>'']\<rparr>)
   \<and> errno (snd (ext2_write_file fs ino off buf sz w)) = errno w
   \<and> errno (snd (ext2_create_file fs ino name mode w)) = errno w
   \<and> errno (snd (ext2_create_dir fs ino name mode w)) = errno w
   \<and> errno (snd (ext2_remove_file fs ino name w)) = errno w
   \<and> errno (snd (ext2_remove_dir fs ino name w)) = errno w"
  by (simp add: ext2_write_file_def ext2_create_file_def ext2_create_dir_def
      ext2_remove_file_def ext2_remove_dir_def hal_uart_puts_def)

text \<open>
  C3 (as stated) fails: the stubs never write \<^verbatim>\<open>errno\<close>. Called with \<^verbatim>\<open>errno\<close> cleared,
  \<^verbatim>\<open>ext2_write_file\<close> returns with \<^verbatim>\<open>errno = 0\<close>; called with \<^verbatim>\<open>errno = 1\<close> it returns with
  \<^verbatim>\<open>errno = 1\<close>; so no error kind is the value the stub sets.
\<close>

theorem ext2_write_file_errno_counterexample:
  "errno (snd (ext2_write_file None (None :: unit option) 0 None 0 (demo_world\<lparr>errno := 0\<rparr>))) = 0
   \<and> errno (snd (ext2_write_file None (None :: unit option) 0 None 0 (demo_world\<lparr>errno := 1\<rparr>))) = 1"
  by (simp add: ext2_write_file_def hal_uart_puts_def)

section \<open>The descriptor table\<close>

lemma vfs_get_file_set_pos:
  "vfs_get_file st fd = Some file \<Longrightarrow> vfs_get_file (set_pos fd p st) fd = Some (file\<lparr>f_pos := p\<rparr>)"
  by (auto simp: vfs_get_file_def set_pos_def VFS_MAX_OPEN_FILES_def split: if_splits)

lemma vfs_alloc_fd_cases:
  assumes "vfs_alloc_fd st = (fd, st1)"
  shows "(fd = -1 \<and> st1 = st)
       \<or> (3 \<le> fd \<and> nat fd < length (g_file_table st) \<and> \<not> f_in_use (g_file_table st ! nat fd)
          \<and> st1 = st\<lparr>g_file_table := (g_file_table st)
                     [nat fd := \<lparr>f_node = None, f_flags = 0, f_pos = 0, f_in_use = True\<rparr>]\<rparr>)"
proof (cases "find (\<lambda>i. \<not> f_in_use (g_file_table st ! i)) [3..<VFS_MAX_OPEN_FILES st]")
  case None
  with assms show ?thesis by (simp add: vfs_alloc_fd_def)
next
  case (Some i)
  then have "i \<in> set [3..<VFS_MAX_OPEN_FILES st]" and "\<not> f_in_use (g_file_table st ! i)"
    by (auto simp: find_Some_iff in_set_conv_nth)
  with Some assms show ?thesis by (auto simp: vfs_alloc_fd_def VFS_MAX_OPEN_FILES_def)
qed

lemma vfs_init_table:
  assumes "vfs_init st w = Ret (r, st', w')"
  shows "r = 0 \<and> length (g_file_table st') = length (g_file_table st)
    \<and> 3 \<le> length (g_file_table st)
    \<and> g_file_table st' ! 0 = free_file\<lparr>f_in_use := True\<rparr>
    \<and> g_file_table st' ! 1 = free_file\<lparr>f_in_use := True\<rparr>
    \<and> g_file_table st' ! 2 = free_file\<lparr>f_in_use := True\<rparr>
    \<and> g_root_fs st' = None"
proof -
  from assms have len: "3 \<le> length (g_file_table st)"
    by (auto simp: vfs_init_def Let_def VFS_MAX_OPEN_FILES_def VFS_FD_STDERR_def split: if_splits)
  then obtain a b c rest where tbl: "g_file_table st = a # b # c # rest"
    by (auto simp: numeral_3_eq_3 Suc_le_length_iff)
  with assms show ?thesis
    by (auto simp: vfs_init_def Let_def VFS_MAX_OPEN_FILES_def VFS_FD_STDIN_def VFS_FD_STDOUT_def
      VFS_FD_STDERR_def)
qed

lemma demo_get_file_3:
  "vfs_get_file demo_state 3 = Some \<lparr>f_node = Some 2, f_flags = 0, f_pos = 5, f_in_use = True\<rparr>"
  by (simp add: vfs_get_file_def demo_state_def VFS_MAX_OPEN_FILES_def)

lemma demo_alloc_fd:
  "vfs_alloc_fd demo_state =
    (4, demo_state\<lparr>g_file_table := (g_file_table demo_state)
          [4 := \<lparr>f_node = None, f_flags = 0, f_pos = 0, f_in_use = True\<rparr>]\<rparr>)"
  by (simp add: vfs_alloc_fd_def VFS_MAX_OPEN_FILES_def upt_rec free_file_def demo_state_def)

text \<open>
  C9. After \<^verbatim>\<open>vfs_init\<close>, descriptors 0, 1 and 2 are in use with a NULL node; for each of them
  \<^verbatim>\<open>vfs_read\<close> and \<^verbatim>\<open>vfs_write\<close> return -1 for every buffer and size (and change nothing);
  and \<^verbatim>\<open>vfs_alloc_fd\<close>, from any state of the table, returns -1 or an index of at least 3.
\<close>

theorem vfs_init_reserves_std_descriptors:
  assumes "vfs_init st w = Ret (r, st', w')"
  shows "r = 0
     \<and> (\<forall>fd \<in> {0, 1, 2}.
          vfs_get_file st' fd = Some \<lparr>f_node = None, f_flags = 0, f_pos = 0, f_in_use = True\<rparr>
          \<and> (\<forall>(env :: 'x vfs_env) sz w1. vfs_read env fd sz st' w1 = (-1, [], st', w1))
          \<and> (\<forall>(env :: 'x vfs_env) buf sz w1. vfs_write env fd buf sz st' w1 = (-1, st', w1)))
     \<and> (\<forall>s. fst (vfs_alloc_fd s) = -1 \<or> 3 \<le> fst (vfs_alloc_fd s))"
proof -
  note t = vfs_init_table [OF assms]
  have g: "vfs_get_file st' fd = Some \<lparr>f_node = None, f_flags = 0, f_pos = 0, f_in_use = True\<rparr>"
    if "fd \<in> {0, 1, 2}" for fd
    using that t by (auto simp: vfs_get_file_def VFS_MAX_OPEN_FILES_def free_file_def)
  have a: "fst (vfs_alloc_fd s) = -1 \<or> 3 \<le> fst (vfs_alloc_fd s)" for s
    using vfs_alloc_fd_cases [of s "fst (vfs_alloc_fd s)" "snd (vfs_alloc_fd s)"] by auto
  from t g a show ?thesis
    by (simp add: vfs_read_def vfs_write_def)
qed

theorem vfs_init_reserves_std_descriptors_witness:
  "vfs_init \<lparr>g_file_table = replicate 8 free_file, g_root_fs = Some 0\<rparr> demo_world
     = Ret (0, demo_state\<lparr>g_file_table := (g_file_table demo_state)[3 := free_file], g_root_fs := None\<rparr>,
            hal_uart_puts ''vfs: Initialized\<newline>'' demo_world)
   \<and> vfs_read demo_env 0 16
        (demo_state\<lparr>g_file_table := (g_file_table demo_state)[3 := free_file], g_root_fs := None\<rparr>)
        demo_world
      = (-1, [], demo_state\<lparr>g_file_table := (g_file_table demo_state)[3 := free_file], g_root_fs := None\<rparr>,
         demo_world)
   \<and> fst (vfs_alloc_fd demo_state) = 4"
proof -
  have i: "vfs_init \<lparr>g_file_table = replicate 8 free_file, g_root_fs = Some 0\<rparr> demo_world
     = Ret (0, demo_state\<lparr>g_file_table := (g_file_table demo_state)[3 := free_file], g_root_fs := None\<rparr>,
            hal_uart_puts ''vfs: Initialized\<newline>'' demo_world)"
    by (simp add: vfs_init_def Let_def VFS_MAX_OPEN_FILES_def VFS_FD_STDIN_def VFS_FD_STDOUT_def
      VFS_FD_STDERR_def demo_state_def numeral_eq_Suc)
  have a: "fst (vfs_alloc_fd demo_state) = 4"
    by (simp add: demo_alloc_fd)
  show ?thesis
    using i a vfs_init_reserves_std_descriptors [OF i, where 'x = "string list"]
    by simp
qed

section \<open>Reading and writing through a descriptor that is not in use\<close>

text \<open>
  C2 (what the code does). For a descriptor that is not in use (negative, beyond the table,
  or a free row), \<^verbatim>\<open>vfs_read\<close> and \<^verbatim>\<open>vfs_write\<close> return -1 and leave the whole state as it
  was, \<^verbatim>\<open>errno\<close> included: \<^verbatim>\<open>errno\<close> is not set to \<^verbatim>\<open>EBADF\<close>.
\<close>

theorem vfs_read_write_bad_fd:
  assumes "vfs_get_file st fd = None"
  shows "vfs_read env fd sz st w = (-1, [], st, w)
       \<and> vfs_write env fd buf sz st w = (-1, st, w)
       \<and> errno (snd (snd (snd (vfs_read env fd sz st w)))) = errno w
       \<and> errno (snd (snd (vfs_write env fd buf sz st w))) = errno w"
  using assms by (simp add: vfs_read_def vfs_write_def)

theorem vfs_read_write_bad_fd_witness:
  "vfs_get_file demo_state 999 = None
   \<and> errno demo_world = 0
   \<and> vfs_read demo_env 999 16 demo_state demo_world = (-1, [], demo_state, demo_world)
   \<and> vfs_write demo_env 999 [] 16 demo_state demo_world = (-1, demo_state, demo_world)
   \<and> errno (snd (snd (snd (vfs_read demo_env 999 16 demo_state demo_world)))) = 0
   \<and> errno (snd (snd (vfs_write demo_env 999 [] 16 demo_state demo_world))) = 0"
proof -
  have g: "vfs_get_file demo_state 999 = None"
    by (simp add: vfs_get_file_def demo_state_def VFS_MAX_OPEN_FILES_def)
  have e: "errno demo_world = 0" by (simp add: demo_world_def)
  show ?thesis
    using g e vfs_read_write_bad_fd [OF g, of demo_env 16 demo_world "[]"]
    by simp
qed

section \<open>Seeking\<close>

text \<open>
  C6. For a descriptor in use with a node, \<^verbatim>\<open>vfs_seek\<close> stores \<^verbatim>\<open>offset\<close> for \<^verbatim>\<open>SEEK_SET\<close>,
  \<^verbatim>\<open>pos + offset\<close> for \<^verbatim>\<open>SEEK_CUR\<close> and \<^verbatim>\<open>node->size + offset\<close> for \<^verbatim>\<open>SEEK_END\<close> (in \<^verbatim>\<open>uint32_t\<close>
  arithmetic) as the descriptor's position, whatever the node's size, and returns that
  position converted to \<^verbatim>\<open>int\<close>; a non-negative \<^verbatim>\<open>SEEK_SET\<close> offset is returned as it is.
  The three \<^verbatim>\<open>whence\<close> constants are the distinct labels of the \<^verbatim>\<open>switch\<close>.
\<close>

theorem vfs_seek_sets_position:
  assumes "vfs_get_file st fd = Some file" and "f_node file = Some n"
    and "SEEK_CUR env \<noteq> SEEK_SET env" and "SEEK_END env \<noteq> SEEK_SET env"
    and "SEEK_END env \<noteq> SEEK_CUR env"
  shows "vfs_seek env fd offset (SEEK_SET env) st w =
           (sint (word_of_int offset :: 32 word), set_pos fd (word_of_int offset) st, w)
       \<and> vfs_seek env fd offset (SEEK_CUR env) st w =
           (sint (f_pos file + word_of_int offset),
            set_pos fd (f_pos file + word_of_int offset) st, w)
       \<and> vfs_seek env fd offset (SEEK_END env) st w =
           (sint (n_size (w_nodes w n) + word_of_int offset),
            set_pos fd (n_size (w_nodes w n) + word_of_int offset) st, w)
       \<and> (\<forall>p. vfs_get_file (set_pos fd p st) fd = Some (file\<lparr>f_pos := p\<rparr>))
       \<and> (0 \<le> offset \<and> offset < 2 ^ 31 \<longrightarrow>
            fst (vfs_seek env fd offset (SEEK_SET env) st w) = offset)"
proof -
  have "sint (word_of_int offset :: 32 word) = offset" if "0 \<le> offset" and "offset < 2 ^ 31"
    using that by (simp add: sint_sbintrunc' signed_take_bit_int_eq_self)
  with assms show ?thesis
    by (simp add: vfs_seek_def seek_to_def vfs_get_file_set_pos)
qed

theorem vfs_seek_sets_position_witness:
  "vfs_seek demo_env 3 10 2 demo_state demo_world = (24, set_pos 3 24 demo_state, demo_world)
   \<and> vfs_get_file (set_pos 3 24 demo_state) 3
        = Some \<lparr>f_node = Some 2, f_flags = 0, f_pos = 24, f_in_use = True\<rparr>
   \<and> n_size (w_nodes demo_world 2) = 14
   \<and> vfs_seek demo_env 3 (-1) 0 demo_state demo_world
        = (-1, set_pos 3 (- 1) demo_state, demo_world)
   \<and> (- 1 :: 32 word) = 4294967295"
proof -
  note g = demo_get_file_3
  have n: "f_node \<lparr>f_node = Some 2, f_flags = 0, f_pos = 5, f_in_use = True\<rparr> = Some 2" by simp
  have d: "SEEK_CUR demo_env \<noteq> SEEK_SET demo_env" "SEEK_END demo_env \<noteq> SEEK_SET demo_env"
    "SEEK_END demo_env \<noteq> SEEK_CUR demo_env" by (simp_all add: demo_env_def)
  have s: "SEEK_END demo_env = 2" "SEEK_SET demo_env = 0" by (simp_all add: demo_env_def)
  show ?thesis
    using vfs_seek_sets_position [OF g n d, of 10 demo_world]
      vfs_seek_sets_position [OF g n d, of "-1" demo_world]
    by (simp add: s demo_world_def)
qed

text \<open>
  C10. For a descriptor in use, \<^verbatim>\<open>vfs_seek\<close> with a \<^verbatim>\<open>whence\<close> other than the three constants
  returns -1 and leaves the descriptor table (and \<^verbatim>\<open>g_root_fs\<close>) exactly as it was; the only
  effect is the console line, printed when the descriptor has a node.
\<close>

theorem vfs_seek_invalid_whence:
  assumes "vfs_get_file st fd = Some file"
    and "whence \<noteq> SEEK_SET env" and "whence \<noteq> SEEK_CUR env" and "whence \<noteq> SEEK_END env"
  shows "vfs_seek env fd offset whence st w =
           (-1, st, if f_node file = None then w
                    else hal_uart_puts ''vfs: Invalid whence value\<newline>'' w)"
  using assms by (simp add: vfs_seek_def split: option.splits)

theorem vfs_seek_invalid_whence_witness:
  "vfs_get_file demo_state 3 = Some \<lparr>f_node = Some 2, f_flags = 0, f_pos = 5, f_in_use = True\<rparr>
   \<and> vfs_seek demo_env 3 10 7 demo_state demo_world =
       (-1, demo_state, hal_uart_puts ''vfs: Invalid whence value\<newline>'' demo_world)"
proof -
  note g = demo_get_file_3
  show ?thesis
    using g vfs_seek_invalid_whence [OF g, of 7 demo_env 10 demo_world]
    by (simp add: demo_env_def)
qed

section \<open>Opening\<close>

lemma demo_resolve_locked:
  "vfs_resolve_path demo_env (Some ''/locked'') demo_state demo_world = Ret (Some 3, demo_world)"
  by (simp add: vfs_resolve_path_def demo_state_def resolve_loop.simps skip_sep_def node_op_def
      node_ops_def demo_env_def demo_ops_def demo_world_def)

lemma demo_open_node_locked:
  "vfs_open_node demo_env ''/locked'' 0 (Some 3) demo_state demo_world
     = Ret (-1, demo_state, demo_world)"
  apply (simp add: vfs_open_node_def demo_alloc_fd)
  apply (simp add: node_op_def node_ops_def demo_env_def demo_ops_def
       VFS_MAX_OPEN_FILES_def vfs_free_fd_def free_file_def demo_state_def demo_world_def)
  done

lemma vfs_open_finish_result:
  "vfs_open_finish flags n fd st w = Ret (r, st', w') \<Longrightarrow> r = fd"
  by (auto simp: vfs_open_finish_def Let_def)

lemma in_use_after_alloc_free:
  assumes "i < length tbl" and "\<not> f_in_use (tbl ! i)"
  shows "map f_in_use (tbl[i := free_file]) = map f_in_use tbl"
  using assms by (simp add: list_eq_iff_nth_eq nth_list_update free_file_def)

lemma vfs_open_node_failure:
  assumes "vfs_open_node env p flags node st w = Ret (-1, st', w')"
  shows "map f_in_use (g_file_table st') = map f_in_use (g_file_table st)
       \<and> g_root_fs st' = g_root_fs st"
proof (cases node)
  case None
  with assms show ?thesis by (simp add: vfs_open_node_def)
next
  case (Some n)
  obtain fd st1 where a: "vfs_alloc_fd st = (fd, st1)" by (cases "vfs_alloc_fd st")
  from vfs_alloc_fd_cases [OF a] show ?thesis
  proof
    assume "fd = -1 \<and> st1 = st"
    with assms Some a show ?thesis by (simp add: vfs_open_node_def)
  next
    assume b: "3 \<le> fd \<and> nat fd < length (g_file_table st) \<and> \<not> f_in_use (g_file_table st ! nat fd)
          \<and> st1 = st\<lparr>g_file_table := (g_file_table st)
                     [nat fd := \<lparr>f_node = None, f_flags = 0, f_pos = 0, f_in_use = True\<rparr>]\<rparr>"
    then have fd: "\<not> fd < 0" "fd \<noteq> -1" "0 \<le> fd" "fd < int (length (g_file_table st))" by auto
    from assms Some a b fd show ?thesis
      by (auto simp: vfs_open_node_def Let_def vfs_free_fd_def VFS_MAX_OPEN_FILES_def
          in_use_after_alloc_free
          dest: vfs_open_finish_result split: option.splits prod.splits if_splits)
  qed
qed

lemma vfs_open_create_result:
  "vfs_open_create env p st w = Inl (Ret (r, st', w')) \<Longrightarrow> st' = st"
  by (auto simp: vfs_open_create_def split: list.splits if_splits option.splits prod.splits outcome.splits)

text \<open>
  C4. Whenever \<^verbatim>\<open>vfs_open\<close> returns -1, the rows of the descriptor table that are in use are
  the same after the call as before it (and \<^verbatim>\<open>g_root_fs\<close> is unchanged). This covers the path
  on which the node's open operation fails after a descriptor was allocated: \<^verbatim>\<open>vfs_free_fd\<close>
  puts the row back to free.
\<close>

theorem vfs_open_failure_keeps_in_use_set:
  assumes "vfs_open env path flags st w = Ret (-1, st', w')"
  shows "map f_in_use (g_file_table st') = map f_in_use (g_file_table st)
       \<and> g_root_fs st' = g_root_fs st"
proof (cases path)
  case None
  with assms show ?thesis by (simp add: vfs_open_def)
next
  case (Some p)
  show ?thesis
  proof (cases "vfs_resolve_path env (Some p) st w")
    case Fault
    with assms Some show ?thesis by (simp add: vfs_open_def)
  next
    case (Ret nw)
    obtain node w1 where nw: "nw = (node, w1)" by (cases nw)
    show ?thesis
    proof (cases "node = None \<and> flags AND O_CREAT \<noteq> 0")
      case False
      with assms Some Ret nw have "vfs_open_node env p flags node st w1 = Ret (-1, st', w')"
        by (auto simp: vfs_open_def)
      then show ?thesis by (rule vfs_open_node_failure)
    next
      case True
      show ?thesis
      proof (cases "vfs_open_create env p st w1")
        case (Inl result)
        with assms Some Ret nw True have "result = Ret (-1, st', w')"
          by (simp add: vfs_open_def)
        with Inl have "st' = st" by (auto dest: vfs_open_create_result)
        then show ?thesis by simp
      next
        case (Inr nw2)
        obtain node2 w2 where "nw2 = (node2, w2)" by (cases nw2)
        with Inr assms Some Ret nw True
        have "vfs_open_node env p flags node2 st w2 = Ret (-1, st', w')"
          by (simp add: vfs_open_def)
        then show ?thesis by (rule vfs_open_node_failure)
      qed
    qed
  qed
qed

theorem vfs_open_failure_keeps_in_use_set_witness:
  "vfs_open demo_env (Some ''/locked'') 0 demo_state demo_world = Ret (-1, demo_state, demo_world)
   \<and> fst (vfs_alloc_fd demo_state) = 4
   \<and> map f_in_use (g_file_table demo_state)
        = [True, True, True, True, False, False, False, False]"
proof -
  have o: "vfs_open demo_env (Some ''/locked'') 0 demo_state demo_world
             = Ret (-1, demo_state, demo_world)"
    by (simp add: vfs_open_def demo_resolve_locked demo_open_node_locked)
  have m: "map f_in_use (g_file_table demo_state)
        = [True, True, True, True, False, False, False, False]"
    by (simp add: demo_state_def free_file_def)
  show ?thesis
    using o m vfs_open_failure_keeps_in_use_set [OF o]
    by (simp add: demo_alloc_fd)
qed

section \<open>Path resolution\<close>

lemma resolve_loop_Nil: "resolve_loop env cur [] w = Ret (cur, w)"
  by (simp add: resolve_loop.simps)

lemma resolve_loop_skip_slash:
  "resolve_loop env cur (CHR ''/'' # r) w = resolve_loop env cur r w"
  by (subst resolve_loop.simps) (simp add: skip_sep_def)

lemma squeeze_slashes_Cons_other:
  "c \<noteq> CHR ''/'' \<Longrightarrow> squeeze_slashes (c # r) = c # squeeze_slashes r"
  by (cases r) simp_all

lemma squeeze_slashes_prefix:
  "CHR ''/'' \<notin> set xs \<Longrightarrow> squeeze_slashes (xs @ ys) = xs @ squeeze_slashes ys"
proof (induction xs)
  case Nil
  then show ?case by simp
next
  case (Cons a xs)
  then have "a \<noteq> CHR ''/''" by auto
  with Cons show ?case by (simp add: squeeze_slashes_Cons_other)
qed

lemma squeeze_slashes_head:
  "\<exists>u. squeeze_slashes (CHR ''/'' # t) = CHR ''/'' # u"
  by (induction t) auto

lemma resolve_loop_skip_squeezed:
  assumes "\<And>cur w. resolve_loop env cur (squeeze_slashes t) w = resolve_loop env cur t w"
  shows "resolve_loop env cur (skip_sep (squeeze_slashes (CHR ''/'' # t))) w
       = resolve_loop env cur t w"
proof (cases t)
  case Nil
  then show ?thesis by (simp add: skip_sep_def)
next
  case (Cons c t')
  show ?thesis
  proof (cases "c = CHR ''/''")
    case True
    obtain u where u: "squeeze_slashes (CHR ''/'' # t') = CHR ''/'' # u"
      using squeeze_slashes_head by blast
    have "resolve_loop env cur u w = resolve_loop env cur (squeeze_slashes t) w"
      using u Cons True by (simp add: resolve_loop_skip_slash)
    with assms u Cons True show ?thesis by (simp add: skip_sep_def)
  next
    case False
    with Cons assms show ?thesis by (simp add: skip_sep_def)
  qed
qed

lemma resolve_loop_component:
  assumes "takeWhile (\<lambda>c. c \<noteq> CHR ''/'') p = name" and "name \<noteq> []"
    and "dropWhile (\<lambda>c. c \<noteq> CHR ''/'') p = rest"
  shows "resolve_loop env cur p w =
     (case cur of
        None \<Rightarrow> Fault
      | Some c \<Rightarrow>
          (case node_op env w c op_lookup of
             None \<Rightarrow> Ret (None, hal_uart_puts ''vfs: No lookup operation\<newline>'' w)
           | Some lookup \<Rightarrow>
               (case lookup c (take 255 name) w of
                  (None, w') \<Rightarrow> Ret (None, w')
                | (Some next, w') \<Rightarrow> resolve_loop env (Some next) (skip_sep rest) w')))"
proof -
  from assms have "p \<noteq> []" by auto
  with assms show ?thesis
    by (subst resolve_loop.simps) (simp add: Let_def)
qed

lemma dropWhile_slash_cases:
  "dropWhile (\<lambda>c. c \<noteq> CHR ''/'') p = [] \<or> (\<exists>t. dropWhile (\<lambda>c. c \<noteq> CHR ''/'') p = CHR ''/'' # t)"
proof (cases "dropWhile (\<lambda>c. c \<noteq> CHR ''/'') p")
  case Nil
  then show ?thesis by simp
next
  case (Cons x xs)
  then have "dropWhile (\<lambda>c. c \<noteq> CHR ''/'') p \<noteq> []" by simp
  from hd_dropWhile [OF this] Cons show ?thesis by simp
qed

lemma takeWhile_no_slash: "CHR ''/'' \<notin> set (takeWhile (\<lambda>c. c \<noteq> CHR ''/'') p)"
  by (auto dest: set_takeWhileD)

lemma split_at_slash:
  assumes "CHR ''/'' \<notin> set name" and "rest = [] \<or> (\<exists>t. rest = CHR ''/'' # t)"
  shows "takeWhile (\<lambda>c. c \<noteq> CHR ''/'') (name @ rest) = name"
    and "dropWhile (\<lambda>c. c \<noteq> CHR ''/'') (name @ rest) = rest"
  using assms by (induction name) auto

lemma resolve_loop_squeeze:
  "resolve_loop env cur (squeeze_slashes p) w = resolve_loop env cur p w"
proof (induction p arbitrary: cur w rule: length_induct)
  case (1 p)
  have IH: "resolve_loop env cur' (squeeze_slashes q) w' = resolve_loop env cur' q w'"
    if "length q < length p" for q cur' w'
    using "1.IH" that by blast
  show ?case
  proof (cases p)
    case Nil
    then show ?thesis by simp
  next
    case (Cons c r)
    show ?thesis
    proof (cases "c = CHR ''/''")
      case True
      obtain u where u: "squeeze_slashes (CHR ''/'' # r) = CHR ''/'' # u"
        using squeeze_slashes_head by blast
      have "length r < length p" using Cons by simp
      then have "\<And>cur w. resolve_loop env cur (squeeze_slashes r) w = resolve_loop env cur r w"
        by (rule IH)
      then have "resolve_loop env cur (skip_sep (squeeze_slashes (CHR ''/'' # r))) w
              = resolve_loop env cur r w"
        by (rule resolve_loop_skip_squeezed)
      then have "resolve_loop env cur u w = resolve_loop env cur r w"
        by (simp add: u skip_sep_def)
      then have "resolve_loop env cur (squeeze_slashes (CHR ''/'' # r)) w
              = resolve_loop env cur (CHR ''/'' # r) w"
        by (simp add: u resolve_loop_skip_slash)
      then show ?thesis by (simp only: Cons True)
    next
      case False
      define name where "name = takeWhile (\<lambda>c. c \<noteq> CHR ''/'') p"
      define rest where "rest = dropWhile (\<lambda>c. c \<noteq> CHR ''/'') p"
      have p: "p = name @ rest" by (simp add: name_def rest_def)
      have nm: "CHR ''/'' \<notin> set name" unfolding name_def by (rule takeWhile_no_slash)
      have ne: "name \<noteq> []" using False Cons by (simp add: name_def)
      have rest: "rest = [] \<or> (\<exists>t. rest = CHR ''/'' # t)"
        unfolding rest_def by (rule dropWhile_slash_cases)
      have sq: "squeeze_slashes p = name @ squeeze_slashes rest"
        unfolding p using nm by (rule squeeze_slashes_prefix)
      have rest': "squeeze_slashes rest = [] \<or> (\<exists>t. squeeze_slashes rest = CHR ''/'' # t)"
        using rest squeeze_slashes_head by auto
      have tk: "takeWhile (\<lambda>c. c \<noteq> CHR ''/'') (squeeze_slashes p) = name"
        and dr: "dropWhile (\<lambda>c. c \<noteq> CHR ''/'') (squeeze_slashes p) = squeeze_slashes rest"
        unfolding sq using nm rest' by (rule split_at_slash)+
      have len: "length rest < length p" using ne by (simp add: p)
      have tail: "resolve_loop env cur' (skip_sep (squeeze_slashes rest)) w'
                = resolve_loop env cur' (skip_sep rest) w'" for cur' w'
        using rest
      proof
        assume "rest = []"
        then show ?thesis by simp
      next
        assume "\<exists>t. rest = CHR ''/'' # t"
        then obtain t where t: "rest = CHR ''/'' # t" by blast
        have "length t < length p" using len by (simp add: t)
        then have "\<And>cur w. resolve_loop env cur (squeeze_slashes t) w = resolve_loop env cur t w"
          by (rule IH)
        then have "resolve_loop env cur' (skip_sep (squeeze_slashes (CHR ''/'' # t))) w'
            = resolve_loop env cur' t w'"
          by (rule resolve_loop_skip_squeezed)
        then show ?thesis by (simp add: t skip_sep_def)
      qed
      have l: "resolve_loop env cur (squeeze_slashes p) w =
         (case cur of
            None \<Rightarrow> Fault
          | Some c \<Rightarrow>
              (case node_op env w c op_lookup of
                 None \<Rightarrow> Ret (None, hal_uart_puts ''vfs: No lookup operation\<newline>'' w)
               | Some lookup \<Rightarrow>
                   (case lookup c (take 255 name) w of
                      (None, w') \<Rightarrow> Ret (None, w')
                    | (Some next, w') \<Rightarrow>
                        resolve_loop env (Some next) (skip_sep (squeeze_slashes rest)) w')))"
        by (rule resolve_loop_component [OF tk ne dr])
      have r: "resolve_loop env cur p w =
         (case cur of
            None \<Rightarrow> Fault
          | Some c \<Rightarrow>
              (case node_op env w c op_lookup of
                 None \<Rightarrow> Ret (None, hal_uart_puts ''vfs: No lookup operation\<newline>'' w)
               | Some lookup \<Rightarrow>
                   (case lookup c (take 255 name) w of
                      (None, w') \<Rightarrow> Ret (None, w')
                    | (Some next, w') \<Rightarrow> resolve_loop env (Some next) (skip_sep rest) w')))"
        by (rule resolve_loop_component [OF name_def [symmetric] ne rest_def [symmetric]])
      show ?thesis
        unfolding l r by (simp only: tail)
    qed
  qed
qed

lemma vfs_resolve_path_slash:
  "vfs_resolve_path env (Some (CHR ''/'' # r)) st w =
     (case g_root_fs st of
        None \<Rightarrow> Ret (None, hal_uart_puts ''vfs: No root filesystem mounted\<newline>'' w)
      | Some fs \<Rightarrow> resolve_loop env (fs_root (w_filesystems w fs)) r w)"
  by (simp add: vfs_resolve_path_def resolve_loop_Nil split: option.splits)

text \<open>
  C5. Path resolution does not depend on redundant separators: from any state, resolving a
  path and resolving the same path with every run of \<^verbatim>\<open>'/'\<close> squeezed to one \<^verbatim>\<open>'/'\<close> give the
  same outcome (the same node, or the same failure, and the same world). In particular
  \<^verbatim>\<open>"//a//b"\<close> resolves as \<^verbatim>\<open>"/a/b"\<close> does.
\<close>

theorem vfs_resolve_path_redundant_slashes:
  "vfs_resolve_path env (Some (squeeze_slashes p)) st w = vfs_resolve_path env (Some p) st w
   \<and> squeeze_slashes ''//a//b'' = ''/a/b''
   \<and> vfs_resolve_path env (Some ''//a//b'') st w = vfs_resolve_path env (Some ''/a/b'') st w"
proof -
  have g: "vfs_resolve_path env (Some (squeeze_slashes p)) st w = vfs_resolve_path env (Some p) st w"
    for p
  proof (cases p)
    case Nil
    then show ?thesis by simp
  next
    case (Cons c r)
    show ?thesis
    proof (cases "c = CHR ''/''")
      case True
      obtain u where u: "squeeze_slashes (CHR ''/'' # r) = CHR ''/'' # u"
        using squeeze_slashes_head by blast
      have "resolve_loop env cur u w = resolve_loop env cur r w" for cur
        using resolve_loop_squeeze [of env cur "CHR ''/'' # r" w] u
        by (simp add: resolve_loop_skip_slash)
      with Cons True u show ?thesis by (simp add: vfs_resolve_path_slash split: option.splits)
    next
      case False
      with Cons show ?thesis
        by (simp add: squeeze_slashes_Cons_other vfs_resolve_path_def split: option.splits)
    qed
  qed
  have s: "squeeze_slashes ''//a//b'' = ''/a/b''" by simp
  from g [of "''//a//b''"] g s show ?thesis by simp
qed

theorem vfs_resolve_path_redundant_slashes_witness:
  "vfs_resolve_path demo_env (Some ''//a//b'') demo_state demo_world = Ret (Some 2, demo_world)
   \<and> vfs_resolve_path demo_env (Some ''/a/b'') demo_state demo_world = Ret (Some 2, demo_world)"
proof -
  have a: "vfs_resolve_path demo_env (Some ''/a/b'') demo_state demo_world = Ret (Some 2, demo_world)"
    by (simp add: vfs_resolve_path_def demo_state_def resolve_loop.simps skip_sep_def node_op_def
        node_ops_def demo_env_def demo_ops_def demo_world_def)
  have "vfs_resolve_path demo_env (Some ''//a//b'') demo_state demo_world
      = vfs_resolve_path demo_env (Some ''/a/b'') demo_state demo_world"
    using vfs_resolve_path_redundant_slashes [of demo_env "[]" demo_state demo_world]
    by blast
  with a show ?thesis by (simp only: simp_thms)
qed

section \<open>Removing directories and files\<close>

text \<open>
  C8 (what the code does). \<^verbatim>\<open>vfs_rmdir\<close> and \<^verbatim>\<open>vfs_unlink\<close> do not look for a further \<^verbatim>\<open>'/'\<close>:
  for every non-empty name after the leading \<^verbatim>\<open>'/'\<close>, nested or not, they call the root
  node's operation with that name and return its result. \<^verbatim>\<open>vfs_mkdir\<close> rejects the same
  nested path.
\<close>

theorem vfs_rmdir_unlink_pass_nested_names:
  assumes "g_root_fs st = Some fs" and "fs_root (w_filesystems w fs) = Some root"
    and "name \<noteq> []"
    and "node_op env w root op_rmdir = Some rm" and "node_op env w root op_unlink = Some ul"
  shows "vfs_rmdir env (Some (CHR ''/'' # name)) st w
           = Ret (fst (rm root name w), st, snd (rm root name w))
       \<and> vfs_unlink env (Some (CHR ''/'' # name)) st w
           = Ret (fst (ul root name w), st, snd (ul root name w))"
  using assms by (simp add: vfs_rmdir_def vfs_unlink_def split: prod.splits)

theorem vfs_rmdir_unlink_pass_nested_names_witness:
  "vfs_rmdir demo_env (Some ''/a/b'') demo_state demo_world
       = Ret (0, demo_state, demo_world\<lparr>w_ext := [''rmdir a/b'']\<rparr>)
   \<and> vfs_unlink demo_env (Some ''/a/b'') demo_state demo_world
       = Ret (0, demo_state, demo_world\<lparr>w_ext := [''unlink a/b'']\<rparr>)
   \<and> vfs_mkdir demo_env (Some ''/a/b'') 0 demo_state demo_world
       = Ret (-1, demo_state,
              hal_uart_puts ''vfs: mkdir only supports root directory for now\<newline>'' demo_world)"
proof -
  have r: "g_root_fs demo_state = Some 0" "fs_root (w_filesystems demo_world 0) = Some 0"
    by (simp_all add: demo_state_def demo_world_def)
  have o: "node_op demo_env demo_world 0 op_rmdir = op_rmdir demo_ops"
    "node_op demo_env demo_world 0 op_unlink = op_unlink demo_ops"
    by (simp_all add: node_op_def node_ops_def demo_env_def demo_world_def)
  have o': "op_rmdir demo_ops = Some (\<lambda>n name w. (0, w\<lparr>w_ext := w_ext w @ [''rmdir '' @ name]\<rparr>))"
    "op_unlink demo_ops = Some (\<lambda>n name w. (0, w\<lparr>w_ext := w_ext w @ [''unlink '' @ name]\<rparr>))"
    by (simp_all add: demo_ops_def)
  have m: "vfs_mkdir demo_env (Some ''/a/b'') 0 demo_state demo_world
       = Ret (-1, demo_state,
              hal_uart_puts ''vfs: mkdir only supports root directory for now\<newline>'' demo_world)"
    by (simp add: vfs_mkdir_def demo_state_def)
  have e: "w_ext demo_world = []" by (simp add: demo_world_def)
  show ?thesis
    using vfs_rmdir_unlink_pass_nested_names [OF r, of "''a/b''" demo_env, OF _ o(1) [unfolded o'(1)] o(2) [unfolded o'(2)]] m e
    by simp
qed

section \<open>Mounting\<close>

lemma read_sectors_reads:
  "read_sectors env sector room idx w = Ret (0, data, reads, w')
   \<Longrightarrow> reads = map (\<lambda>i. ucast (sector + of_nat i)) idx"
  by (induction idx arbitrary: w data reads)
     (auto split: prod.splits if_splits outcome.splits)

lemma read_block_reads:
  "read_block env dev block_num bsize room w = Ret (0, data, reads, w')
   \<Longrightarrow> reads = read_block_requests block_num bsize"
  by (simp add: read_block_def read_block_requests_def Let_def read_sectors_reads)

lemma read_gdt_reads:
  "read_gdt env dev gdt_block bsize gdt_size idx w = Ret (None, data, reads, w')
   \<Longrightarrow> reads = concat (map (\<lambda>i. read_block_requests (gdt_block + of_nat i) bsize) idx)"
  by (induction idx arbitrary: w data reads)
     (auto split: prod.splits if_splits outcome.splits dest: read_block_reads)

lemma read_sectors_reads_prefix:
  "read_sectors env sector room idx w = Ret (r, data, reads, w')
   \<Longrightarrow> prefix reads (map (\<lambda>i. ucast (sector + of_nat i)) idx)"
  by (induction idx arbitrary: w r data reads)
     (auto split: prod.splits if_splits outcome.splits)

lemma read_block_reads_prefix:
  "read_block env dev block_num bsize room w = Ret (r, data, reads, w')
   \<Longrightarrow> prefix reads (read_block_requests block_num bsize)"
  by (simp add: read_block_def read_block_requests_def Let_def read_sectors_reads_prefix)

lemma read_gdt_reads_prefix:
  "read_gdt env dev gdt_block bsize gdt_size idx w = Ret (failed, data, reads, w')
   \<Longrightarrow> prefix reads (concat (map (\<lambda>i. read_block_requests (gdt_block + of_nat i) bsize) idx))"
proof (induction idx arbitrary: w failed data reads w')
  case Nil
  then show ?case by simp
next
  case (Cons i idx)
  from Cons.prems obtain ret d rs w1 where
    b: "read_block env dev (gdt_block + of_nat i) bsize
          (unat gdt_size - unat (of_nat i * bsize)) w = Ret (ret, d, rs, w1)"
    by (auto split: outcome.splits)
  show ?case
  proof (cases "ret = 0")
    case True
    with b have rs: "rs = read_block_requests (gdt_block + of_nat i) bsize"
      by (simp add: read_block_reads)
    from Cons.prems b True obtain f' d' rs' w2 where
      g: "read_gdt env dev gdt_block bsize gdt_size idx w1 = Ret (f', d', rs', w2)"
      by (auto split: outcome.splits)
    from Cons.IH [OF g] Cons.prems b True g rs show ?thesis by auto
  next
    case False
    with Cons.prems b have "reads = rs" by simp
    with read_block_reads_prefix [OF b] show ?thesis by simp
  qed
qed

lemma ext2_mount_groups_reads_prefix:
  assumes "ext2_mount_groups env dev fs sb a w = Ret (r, fs', reads, w')"
  shows "prefix reads
     (concat (map (\<lambda>i. read_block_requests (s_first_data_block sb + 1 + of_nat i) (block_size fs))
        [0..<unat ((num_groups fs' + desc_per_block fs' - 1) div desc_per_block fs')]))"
  using assms
  by (auto simp: ext2_mount_groups_def Let_def
      split: if_splits prod.splits option.splits outcome.splits
      dest: read_gdt_reads_prefix)

lemma ext2_mount_groups_success:
  assumes "ext2_mount_groups env dev fs sb a w = Ret (0, fs', reads, w')"
  shows "superblock fs' = superblock fs \<and> block_size fs' = block_size fs
     \<and> s_blocks_per_group sb \<noteq> 0
     \<and> num_groups fs' = (s_blocks_count sb + s_blocks_per_group sb - 1) div s_blocks_per_group sb
     \<and> desc_per_block fs' = block_size fs div sizeof_ext2_group_desc_t
     \<and> desc_per_block fs' \<noteq> 0
     \<and> group_desc fs' \<noteq> None
     \<and> reads = concat (map (\<lambda>i. read_block_requests (s_first_data_block sb + 1 + of_nat i) (block_size fs))
                 [0..<unat ((num_groups fs' + desc_per_block fs' - 1) div desc_per_block fs')])"
  using assms
  by (auto simp: ext2_mount_groups_def Let_def
      split: if_splits prod.splits option.splits outcome.splits
      dest: read_gdt_reads)

lemma ext2_mount_check_success:
  assumes "ext2_mount_check env dev fs buf w = Ret (0, fs', reads, w')"
  shows "superblock fs' = superblock fs
     \<and> s_magic (superblock_of env (kb_bytes buf)) = EXT2_SUPER_MAGIC
     \<and> unat (s_log_block_size (superblock_of env (kb_bytes buf))) < 32
     \<and> block_size fs' = push_bit (unat (s_log_block_size (superblock_of env (kb_bytes buf)))) 1024
     \<and> EXT2_MIN_BLOCK_SIZE env \<le> block_size fs' \<and> block_size fs' \<le> EXT2_MAX_BLOCK_SIZE env
     \<and> ext2_mount_groups env dev (fs\<lparr>block_size := block_size fs'\<rparr>)
          (superblock_of env (kb_bytes buf)) (kb_addr buf) w = Ret (0, fs', reads, w')"
proof -
  define sb where "sb = superblock_of env (kb_bytes buf)"
  define bs :: "32 word" where "bs = push_bit (unat (s_log_block_size sb)) 1024"
  from assms have m: "s_magic sb = EXT2_SUPER_MAGIC" and sh: "unat (s_log_block_size sb) < 32"
    and lo: "EXT2_MIN_BLOCK_SIZE env \<le> bs" and hi: "bs \<le> EXT2_MAX_BLOCK_SIZE env"
    and g: "ext2_mount_groups env dev (fs\<lparr>block_size := bs\<rparr>) sb (kb_addr buf) w
              = Ret (0, fs', reads, w')"
    by (auto simp: ext2_mount_check_def Let_def sb_def bs_def split: if_splits)
  from ext2_mount_groups_success [OF g]
  have "superblock fs' = superblock fs" and "block_size fs' = bs" by simp_all
  with m sh lo hi g show ?thesis by (simp add: sb_def bs_def)
qed

lemma ext2_mount_success:
  assumes "ext2_mount env fsp dev w = Ret (0, fsp', reads, w')"
  shows "\<exists>fs1 fs' a w1 d2 w2 d3 w3 reads'.
           fsp \<noteq> None \<and> dev \<noteq> None \<and> fsp' = Some fs'
         \<and> kmalloc env 1024 w = (Some a, w1)
         \<and> virtio_blk_read env 2 1 w1 = (1, d2, w2)
         \<and> virtio_blk_read env 3 1 w2 = (1, d3, w3)
         \<and> reads = [2, 3] @ reads'
         \<and> superblock fs1 = Some \<lparr>kb_addr = a, kb_bytes = d2 @ d3\<rparr>
         \<and> ext2_mount_check env dev fs1 \<lparr>kb_addr = a, kb_bytes = d2 @ d3\<rparr> w3
              = Ret (0, fs', reads', w')"
proof -
  from assms obtain fs0 where fs0: "fsp = Some fs0" and dev: "dev \<noteq> None"
    by (auto simp: ext2_mount_def split: option.splits if_splits)
  define fs where "fs = fs0\<lparr>device := dev, superblock := None, group_desc := None\<rparr>"
  from assms fs0 dev obtain a w1 where k: "kmalloc env 1024 w = (Some a, w1)"
    by (auto simp: ext2_mount_def Let_def EXT2_SUPERBLOCK_SIZE_def split: option.splits prod.splits)
  obtain ret2 d2 w2 where r2: "virtio_blk_read env 2 1 w1 = (ret2, d2, w2)"
    by (cases "virtio_blk_read env 2 1 w1") auto
  with assms fs0 dev k have ret2: "ret2 = 1"
    by (auto simp: ext2_mount_def Let_def EXT2_SUPERBLOCK_SIZE_def split: if_splits)
  obtain ret3 d3 w3 where r3: "virtio_blk_read env 3 1 w2 = (ret3, d3, w3)"
    by (cases "virtio_blk_read env 3 1 w2") auto
  with assms fs0 dev k r2 ret2 have ret3: "ret3 = 1"
    by (auto simp: ext2_mount_def Let_def EXT2_SUPERBLOCK_SIZE_def split: if_splits)
  define buf where "buf = \<lparr>kb_addr = a, kb_bytes = d2 @ d3\<rparr>"
  from assms fs0 dev k r2 ret2 r3 ret3
  obtain fs' reads' where c: "ext2_mount_check env dev (fs\<lparr>superblock := Some buf\<rparr>) buf w3
        = Ret (0, fs', reads', w')" and f: "fsp' = Some fs'" and r: "reads = [2, 3] @ reads'"
    by (auto simp: ext2_mount_def Let_def EXT2_SUPERBLOCK_SIZE_def fs_def buf_def
        split: outcome.splits)
  have "superblock (fs\<lparr>superblock := Some buf\<rparr>) = Some buf" by simp
  with fs0 dev k r2 ret2 r3 ret3 c f r show ?thesis
    unfolding buf_def by blast
qed

lemma demo_env_simps:
  "kmalloc (demo_ext2_env s) n w = (Some (w_ext w), w\<lparr>w_ext := w_ext w + n\<rparr>)"
  "virtio_blk_read (demo_ext2_env s) k c w = (1, if k = 2 then s else replicate 512 0, w)"
  "kfree (demo_ext2_env s) a w = w"
  "superblock_of (demo_ext2_env s) = ext2_superblock_layout"
  "EXT2_MIN_BLOCK_SIZE (demo_ext2_env s) = 1024"
  "EXT2_MAX_BLOCK_SIZE (demo_ext2_env s) = 4096"
  "EXT2_INODE_SIZE (demo_ext2_env s) = 128"
  by (simp_all add: demo_ext2_env_def)

lemma demo_superblock_empty:
  "ext2_superblock_layout (demo_superblock_sector [0, 0, 0, 0] @ replicate 512 0)
   = \<lparr>s_blocks_count = 0, s_first_data_block = 1, s_log_block_size = 0,
      s_blocks_per_group = 8192, s_magic = 0xEF53, s_inode_size = 128\<rparr>"
  by (simp add: ext2_superblock_layout_def demo_superblock_sector_def le16_def le32_def nth_append)



lemma demo_mount_empty:
  "ext2_mount (demo_ext2_env (demo_superblock_sector [0, 0, 0, 0])) (Some demo_fs) (Some 1)
     demo_heap_world
   = Ret (0,
       Some \<lparr>device = Some 1,
             superblock = Some \<lparr>kb_addr = 4096,
               kb_bytes = demo_superblock_sector [0, 0, 0, 0] @ replicate 512 0\<rparr>,
             group_desc = Some \<lparr>kb_addr = 5120, kb_bytes = []\<rparr>,
             block_size = 1024, num_groups = 0, inodes_per_block = 8, desc_per_block = 32\<rparr>,
       [2, 3],
       demo_heap_world\<lparr>console := [Puts ''ext2: Mounted filesystem successfully\<newline>''],
                       w_ext := 5120\<rparr>)"
  apply (simp add: ext2_mount_def demo_env_simps Let_def EXT2_SUPERBLOCK_SIZE_def
      ext2_mount_check_def demo_superblock_empty EXT2_SUPER_MAGIC_def)
  apply (simp add: ext2_mount_groups_def demo_env_simps Let_def sizeof_ext2_group_desc_t_def
      read_block_def upt_rec demo_fs_def demo_heap_world_def hal_uart_puts_def)
  done

text \<open>
  C1 (what the code does). \<^verbatim>\<open>ext2_mount\<close> checks the magic number and the block size but not
  the number of groups. On a disk whose superblock has the magic number, 1024-byte blocks and
  \<^verbatim>\<open>s_blocks_count = 0\<close>, with a heap that serves the resulting zero-byte request, it
  returns 0 and leaves \<^verbatim>\<open>num_groups = 0\<close>.
\<close>

theorem ext2_mount_zero_groups:
  "ext2_mount (demo_ext2_env (demo_superblock_sector [0, 0, 0, 0])) (Some demo_fs) (Some 1)
     demo_heap_world
   = Ret (0,
       Some \<lparr>device = Some 1,
             superblock = Some \<lparr>kb_addr = 4096,
               kb_bytes = demo_superblock_sector [0, 0, 0, 0] @ replicate 512 0\<rparr>,
             group_desc = Some \<lparr>kb_addr = 5120, kb_bytes = []\<rparr>,
             block_size = 1024, num_groups = 0, inodes_per_block = 8, desc_per_block = 32\<rparr>,
       [2, 3],
       demo_heap_world\<lparr>console := [Puts ''ext2: Mounted filesystem successfully\<newline>''],
                       w_ext := 5120\<rparr>)"
  by (rule demo_mount_empty)

text \<open>
  The two checks that \<^verbatim>\<open>ext2_mount\<close> does make: after a successful mount the superblock
  buffer holds the magic number and the block size lies between the two bounds.
\<close>

lemma ext2_mount_success_magic_and_block_size:
  assumes "ext2_mount env fsp dev w = Ret (0, fsp', reads, w')"
  shows "\<exists>fs' buf. fsp' = Some fs' \<and> superblock fs' = Some buf
         \<and> s_magic (superblock_of env (kb_bytes buf)) = 0xEF53
         \<and> EXT2_MIN_BLOCK_SIZE env \<le> block_size fs'
         \<and> block_size fs' \<le> EXT2_MAX_BLOCK_SIZE env"
proof -
  from ext2_mount_success [OF assms]
  obtain fs1 fs' a d2 d3 w3 reads' where f: "fsp' = Some fs'"
    and s: "superblock fs1 = Some \<lparr>kb_addr = a, kb_bytes = d2 @ d3\<rparr>"
    and c: "ext2_mount_check env dev fs1 \<lparr>kb_addr = a, kb_bytes = d2 @ d3\<rparr> w3
              = Ret (0, fs', reads', w')"
    by blast
  note c' = ext2_mount_check_success [OF c, unfolded kbuf.select_convs EXT2_SUPER_MAGIC_def]
  from c' s have "superblock fs' = Some \<lparr>kb_addr = a, kb_bytes = d2 @ d3\<rparr>" by simp
  moreover from c' have "s_magic (superblock_of env (d2 @ d3)) = 0xEF53"
    and "EXT2_MIN_BLOCK_SIZE env \<le> block_size fs'"
    and "block_size fs' \<le> EXT2_MAX_BLOCK_SIZE env" by blast+
  ultimately show ?thesis using f by simp
qed

text \<open>
  The group count of a successful mount is zero only when the heap has served a request for
  zero bytes; with a heap that refuses such requests every successful mount has at least
  one group.
\<close>

lemma word_pred_div_self:
  fixes x :: "32 word"
  assumes "x \<noteq> 0"
  shows "(x - 1) div x = 0"
proof -
  from assms have "x - 1 < x"
    by (simp add: word_less_nat_alt unat_minus_one unat_gt_0)
  then show ?thesis by (rule div_word_less)
qed

lemma ext2_mount_groups_zero:
  assumes "ext2_mount_groups env dev fs sb a w = Ret (0, fs', reads, w')"
    and "num_groups fs' = 0"
  shows "\<exists>g w1. kmalloc env 0 w = (Some g, w1)"
  using assms
  by (auto simp: ext2_mount_groups_def Let_def word_pred_div_self
      split: if_splits prod.splits option.splits outcome.splits)

lemma ext2_mount_num_groups_positive:
  assumes "ext2_mount env fsp dev w = Ret (0, fsp', reads, w')"
    and "\<And>w. fst (kmalloc env 0 w) = None"
  shows "\<exists>fs'. fsp' = Some fs' \<and> 0 < num_groups fs'"
proof -
  from ext2_mount_success [OF assms(1)]
  obtain fs1 fs' a d2 d3 w3 reads' where f: "fsp' = Some fs'"
    and c: "ext2_mount_check env dev fs1 \<lparr>kb_addr = a, kb_bytes = d2 @ d3\<rparr> w3
              = Ret (0, fs', reads', w')"
    by blast
  from ext2_mount_check_success [OF c, unfolded kbuf.select_convs]
  have g: "ext2_mount_groups env dev (fs1\<lparr>block_size := block_size fs'\<rparr>)
          (superblock_of env (d2 @ d3)) a w3 = Ret (0, fs', reads', w')" by blast
  have "num_groups fs' \<noteq> 0"
  proof
    assume "num_groups fs' = 0"
    from ext2_mount_groups_zero [OF g this] assms(2) [of w3] show False by auto
  qed
  with f show ?thesis by (simp add: word_neq_0_conv)
qed

text \<open>A superblock without the magic number is rejected once both sectors are read.\<close>

lemma ext2_mount_bad_magic:
  assumes "kmalloc env 1024 w = (Some a, w1)"
    and "virtio_blk_read env 2 1 w1 = (1, d2, w2)"
    and "virtio_blk_read env 3 1 w2 = (1, d3, w3)"
    and "s_magic (superblock_of env (d2 @ d3)) \<noteq> 0xEF53"
  shows "\<exists>fs' w'. ext2_mount env (Some fs) (Some d) w = Ret (-1, Some fs', [2, 3], w')
           \<and> superblock fs' = None \<and> group_desc fs' = None"
  using assms
  by (simp add: ext2_mount_def ext2_mount_check_def Let_def EXT2_SUPERBLOCK_SIZE_def
      EXT2_SUPER_MAGIC_def)

text \<open>
  On every path that returns, failing ones included, the sectors requested are an initial
  part of the sequence 2, 3, sectors of the descriptor table blocks.
\<close>

lemma ext2_mount_groups_fields:
  assumes "ext2_mount_groups env dev fs sb a w = Ret (r, fs', reads, w')"
  shows "block_size fs' = block_size fs"
  using assms
  by (auto simp: ext2_mount_groups_def Let_def
      split: if_splits prod.splits option.splits outcome.splits)

lemma ext2_mount_check_reads_prefix:
  assumes "ext2_mount_check env dev fs buf w = Ret (r, fs', reads, w')"
  shows "prefix reads
     (concat (map (\<lambda>i. read_block_requests
                          (s_first_data_block (superblock_of env (kb_bytes buf)) + 1 + of_nat i)
                          (block_size fs'))
        [0..<unat ((num_groups fs' + desc_per_block fs' - 1) div desc_per_block fs')]))"
proof (cases "reads = []")
  case True
  then show ?thesis by simp
next
  case False
  define sb where "sb = superblock_of env (kb_bytes buf)"
  define bs :: "32 word" where "bs = push_bit (unat (s_log_block_size sb)) 1024"
  from assms False
  have g: "ext2_mount_groups env dev (fs\<lparr>block_size := bs\<rparr>) sb (kb_addr buf) w
              = Ret (r, fs', reads, w')"
    by (auto simp: ext2_mount_check_def Let_def sb_def bs_def split: if_splits)
  from ext2_mount_groups_fields [OF g] have "block_size fs' = bs" by simp
  with ext2_mount_groups_reads_prefix [OF g] show ?thesis by (simp add: sb_def)
qed

lemma ext2_mount_reads_prefix:
  assumes "ext2_mount env fsp dev w = Ret (r, fsp', reads, w')"
  shows "reads = [] \<or> reads = [2] \<or> reads = [2, 3]
     \<or> (\<exists>fs' a w1 d2 w2 d3 w3.
           fsp' = Some fs'
         \<and> kmalloc env 1024 w = (Some a, w1)
         \<and> virtio_blk_read env 2 1 w1 = (1, d2, w2)
         \<and> virtio_blk_read env 3 1 w2 = (1, d3, w3)
         \<and> prefix [2, 3] reads
         \<and> prefix reads ([2, 3] @
             concat (map (\<lambda>i. read_block_requests (s_first_data_block (superblock_of env (d2 @ d3)) + 1 + of_nat i)
                                (block_size fs'))
                      [0..<unat ((num_groups fs' + desc_per_block fs' - 1) div desc_per_block fs')])))"
proof (cases "reads = [] \<or> reads = [2] \<or> reads = [2, 3]")
  case True
  then show ?thesis by blast
next
  case False
  from assms False obtain fs0 where fs0: "fsp = Some fs0" and dev: "dev \<noteq> None"
    by (auto simp: ext2_mount_def split: option.splits if_splits)
  define fs where "fs = fs0\<lparr>device := dev, superblock := None, group_desc := None\<rparr>"
  from assms False fs0 dev obtain a w1 where k: "kmalloc env 1024 w = (Some a, w1)"
    by (auto simp: ext2_mount_def Let_def EXT2_SUPERBLOCK_SIZE_def split: option.splits prod.splits)
  obtain ret2 d2 w2 where r2: "virtio_blk_read env 2 1 w1 = (ret2, d2, w2)"
    by (cases "virtio_blk_read env 2 1 w1") auto
  with assms False fs0 dev k have ret2: "ret2 = 1"
    by (auto simp: ext2_mount_def Let_def EXT2_SUPERBLOCK_SIZE_def split: if_splits)
  obtain ret3 d3 w3 where r3: "virtio_blk_read env 3 1 w2 = (ret3, d3, w3)"
    by (cases "virtio_blk_read env 3 1 w2") auto
  define buf where "buf = \<lparr>kb_addr = a, kb_bytes = d2 @ d3\<rparr>"
  show ?thesis
  proof (cases "ret3 = 1")
    case True
    with assms fs0 dev k r2 ret2 r3
    obtain fs' reads' where c: "ext2_mount_check env dev (fs\<lparr>superblock := Some buf\<rparr>) buf w3
          = Ret (r, fs', reads', w')" and f: "fsp' = Some fs'" and r: "reads = [2, 3] @ reads'"
      by (auto simp: ext2_mount_def Let_def EXT2_SUPERBLOCK_SIZE_def fs_def buf_def
          split: outcome.splits)
    from ext2_mount_check_reads_prefix [OF c] r
    have "prefix reads ([2, 3] @
             concat (map (\<lambda>i. read_block_requests (s_first_data_block (superblock_of env (d2 @ d3)) + 1 + of_nat i)
                                (block_size fs'))
                      [0..<unat ((num_groups fs' + desc_per_block fs' - 1) div desc_per_block fs')]))"
      by (simp add: buf_def)
    moreover from r have "prefix [2, 3] reads" by simp
    ultimately show ?thesis using f k r2 ret2 r3 True by blast
  next
    case False
    with assms fs0 dev k r2 ret2 r3 have "reads = [2, 3]"
      by (auto simp: ext2_mount_def Let_def EXT2_SUPERBLOCK_SIZE_def)
    then show ?thesis by simp
  qed
qed


text \<open>
  Where the requests of \<^verbatim>\<open>read_block\<close> lie on the device: as long as the byte offsets stay
  below \<open>2^32\<close>, they are the sectors of the blocks asked for.
\<close>

lemma unat_push_bit_1024_dvd: "512 dvd unat (push_bit n 1024 :: 32 word)"
proof -
  have "(push_bit n 1024 :: 32 word) = 512 * push_bit n 2"
    by (simp add: push_bit_eq_mult)
  then have "unat (push_bit n 1024 :: 32 word) = (512 * unat (push_bit n 2 :: 32 word)) mod 2 ^ 32"
    by (simp add: unat_word_ariths)
  moreover have "(512::nat) dvd 2 ^ 32" by simp
  ultimately show ?thesis by (simp add: dvd_mod)
qed






text \<open>
  The descriptor table fits its buffer on every successful mount: had
  \<^verbatim>\<open>gdt_blocks * block_size\<close> wrapped, a block would have been stored past the end of the
  allocation, which is a fault.
\<close>

lemma read_sectors_room:
  "read_sectors env s room idx w = Ret (0, d, rs, w') \<Longrightarrow> i \<in> set idx \<Longrightarrow> i * 512 + 512 \<le> room"
proof (induction idx arbitrary: w d rs w')
  case Nil
  then show ?case by simp
next
  case (Cons j js)
  from Cons.prems(1) have r: "\<not> room < j * 512 + 512"
    by (auto split: if_splits)
  show ?case
  proof (cases "i = j")
    case True
    with r show ?thesis by simp
  next
    case False
    with Cons.prems(2) have "i \<in> set js" by simp
    moreover from Cons.prems(1) r obtain d1 rs1 w1 w2 where
      "read_sectors env s room js w1 = Ret (0, d1, rs1, w2)"
      by (auto split: if_splits prod.splits outcome.splits)
    ultimately show ?thesis by (rule Cons.IH [rotated])
  qed
qed

lemma read_block_room:
  assumes "read_block env dev b bs room w = Ret (0, d, rs, w')"
    and "512 dvd unat bs" and "bs \<noteq> 0"
  shows "unat bs \<le> room"
proof -
  define k where "k = unat (bs div 512)"
  have k: "k = unat bs div 512" by (simp add: k_def unat_div)
  from assms(3) have "0 < unat bs" by (simp add: unat_gt_0)
  with assms(2) have "0 < k" unfolding k by (auto elim!: dvdE)
  then have "k - 1 \<in> set [0..<k]" by simp
  with assms(1) have "(k - 1) * 512 + 512 \<le> room"
    unfolding read_block_def Let_def k_def [symmetric] by (rule read_sectors_room)
  moreover from \<open>0 < k\<close> have "(k - 1) * 512 + 512 = k * 512" by (cases k) simp_all
  moreover from assms(2) have "k * 512 = unat bs" unfolding k by simp
  ultimately show ?thesis by simp
qed

lemma read_gdt_room:
  "read_gdt env dev g bs gs idx w = Ret (None, d, rs, w') \<Longrightarrow> 512 dvd unat bs \<Longrightarrow> bs \<noteq> 0 \<Longrightarrow>
   i \<in> set idx \<Longrightarrow> unat bs \<le> unat gs - unat (of_nat i * bs)"
proof (induction idx arbitrary: w d rs w')
  case Nil
  then show ?case by simp
next
  case (Cons j js)
  from Cons.prems(1) obtain d0 rs0 w0 where
    b: "read_block env dev (g + of_nat j) bs (unat gs - unat (of_nat j * bs)) w = Ret (0, d0, rs0, w0)"
    by (auto split: if_splits prod.splits outcome.splits)
  show ?case
  proof (cases "i = j")
    case True
    from b Cons.prems(2,3) show ?thesis unfolding True by (rule read_block_room)
  next
    case False
    with Cons.prems(4) have "i \<in> set js" by simp
    moreover from Cons.prems(1) b obtain d1 rs1 w2 where
      "read_gdt env dev g bs gs js w0 = Ret (None, d1, rs1, w2)"
      by (auto split: if_splits prod.splits outcome.splits)
    ultimately show ?thesis using Cons.prems(2,3) Cons.IH by blast
  qed
qed

lemma room_no_wrap:
  fixes bs gs :: "32 word"
  assumes "\<And>i. i < n \<Longrightarrow> unat bs \<le> unat gs - unat (of_nat i * bs)" and "bs \<noteq> 0"
  shows "k \<le> n \<Longrightarrow> k * unat bs \<le> unat gs"
proof (induction k)
  case 0
  then show ?case by simp
next
  case (Suc k)
  then have ih: "k * unat bs \<le> unat gs" and kn: "k < n" by simp_all
  from assms(2) have p: "0 < unat bs" by (simp add: unat_gt_0)
  have g: "unat gs < 2 ^ 32" using unsigned_less [where 'a = nat and w = gs] by simp
  with ih have kb: "k * unat bs < 2 ^ 32" by simp
  from p have "1 \<le> unat bs" by simp
  then have "k * 1 \<le> k * unat bs" by (rule mult_le_mono2)
  then have "k \<le> k * unat bs" by (simp only: nat_mult_1_right)
  from this kb have "k < 2 ^ 32" by (rule le_less_trans)
  then have uk: "unat (of_nat k :: 32 word) = k" by (simp add: unat_of_nat take_bit_nat_eq_self)
  from kb have "unat (of_nat k :: 32 word) * unat bs < 2 ^ LENGTH(32)" by (simp add: uk)
  then have "unat (of_nat k * bs) = unat (of_nat k :: 32 word) * unat bs"
    by (simp only: unat_mult_lem)
  then have "unat (of_nat k * bs) = k * unat bs" by (simp only: uk)
  with assms(1) [OF kn] have "unat bs \<le> unat gs - k * unat bs" by simp
  with p show ?case by simp
qed

lemma ext2_mount_groups_table_fits:
  assumes "ext2_mount_groups env dev fs sb a w = Ret (0, fs', reads, w')"
    and "512 dvd unat (block_size fs)"
  shows "unat ((num_groups fs' + desc_per_block fs' - 1) div desc_per_block fs')
           * unat (block_size fs) < 2 ^ 32"
proof -
  define gb where "gb = (num_groups fs' + desc_per_block fs' - 1) div desc_per_block fs'"
  define bs where "bs = block_size fs"
  from assms(1) obtain d rs w1 w2 where
    r: "read_gdt env dev (s_first_data_block sb + 1) bs (gb * bs) [0..<unat gb] w1
          = Ret (None, d, rs, w2)"
    and nz: "bs div sizeof_ext2_group_desc_t \<noteq> 0"
    by (auto simp: ext2_mount_groups_def Let_def gb_def bs_def
        split: if_splits prod.splits option.splits outcome.splits)
  from nz have b0: "bs \<noteq> 0" by auto
  have "unat gb * unat bs \<le> unat (gb * bs)"
  proof (rule room_no_wrap [where n = "unat gb"])
    fix i assume "i < unat gb"
    then have "i \<in> set [0..<unat gb]" by simp
    with r assms(2) [folded bs_def] b0 show "unat bs \<le> unat (gb * bs) - unat (of_nat i * bs)"
      by (rule read_gdt_room)
  qed (use b0 in simp_all)
  moreover have "unat (gb * bs) < 2 ^ 32"
    using unsigned_less [where 'a = nat and w = "gb * bs"] by simp
  ultimately show ?thesis unfolding gb_def bs_def by simp
qed


lemma ext2_mount_table_fits:
  assumes "ext2_mount env fsp dev w = Ret (0, Some fs', reads, w')"
  shows "unat ((num_groups fs' + desc_per_block fs' - 1) div desc_per_block fs')
           * unat (block_size fs') < 2 ^ 32"
proof -
  from ext2_mount_success [OF assms] obtain fs1 buf w3 reads' where
    c: "ext2_mount_check env dev fs1 buf w3 = Ret (0, fs', reads', w')"
    by auto
  from ext2_mount_check_success [OF c]
  have b: "block_size fs' = push_bit (unat (s_log_block_size (superblock_of env (kb_bytes buf)))) 1024"
    and g: "ext2_mount_groups env dev (fs1\<lparr>block_size := block_size fs'\<rparr>)
              (superblock_of env (kb_bytes buf)) (kb_addr buf) w3 = Ret (0, fs', reads', w')"
    by blast+
  have "512 dvd unat (block_size fs')"
    unfolding b by (rule unat_push_bit_1024_dvd)
  then have "512 dvd unat (block_size (fs1\<lparr>block_size := block_size fs'\<rparr>))" by simp
  from ext2_mount_groups_table_fits [OF g this] show ?thesis by simp
qed




end
